theory Spec2Isabelle
  imports Complex_Main "HOL-Library.Sublist" "HOL-Library.Multiset"
begin

section \<open>SourceFinder: relevance scoring, trust classification and stratified pairing\<close>

text \<open>
  A shallow embedding of \<^verbatim>\<open>source_finder.py\<close> (class \<^verbatim>\<open>SourceFinder\<close>).

  Conventions of the model:
  \<^item> Python strings are \<open>string\<close>; the characters are ASCII, so \<open>str.lower\<close> maps
    \<open>A..Z\<close> to \<open>a..z\<close> character by character and \<open>len\<close> is \<open>length\<close>.
  \<^item> Python floats are exact rationals (\<open>rat\<close>): \<open>0.6\<close> is \<open>6/10\<close>, \<open>0.35\<close> is \<open>35/100\<close>.
  \<^item> A Python exception is a value of \<open>exn\<close>; a call that may raise returns
    \<open>exn + 'a\<close>, with \<open>Inl\<close> for the raised exception. Only subclasses of
    \<open>Exception\<close> are exceptions of the model.
  \<^item> The libraries and services the class calls (the search provider, the page
    extractor, the fuzzy matcher, the file system, the clock, the random generator) are
    the fields of a record \<open>world\<close>; every function of the model takes the world it
    runs in. A world answers the same question the same way during one run.
  \<^item> The progress lines the class prints are not modelled, except those of the
    configuration loader.
\<close>

subsection \<open>Exceptions\<close>

datatype exn =
    FileNotFoundError
  | JSONDecodeError
  | PermissionError
  | AttributeError
  | ZeroDivisionError
  | ValueError
  | OtherError string

subsection \<open>Strings\<close>

definition is_upper :: "char \<Rightarrow> bool" where
  "is_upper c = (let n = (of_char c :: nat) in 65 \<le> n \<and> n \<le> 90)"

definition is_lower :: "char \<Rightarrow> bool" where
  "is_lower c = (let n = (of_char c :: nat) in 97 \<le> n \<and> n \<le> 122)"

definition is_digit :: "char \<Rightarrow> bool" where
  "is_digit c = (let n = (of_char c :: nat) in 48 \<le> n \<and> n \<le> 57)"

definition is_alpha :: "char \<Rightarrow> bool" where
  "is_alpha c = (is_upper c \<or> is_lower c)"

text \<open>The regular expression class \<^verbatim>\<open>\w\<close> on ASCII: letters, digits and the underscore.\<close>

definition is_word_char :: "char \<Rightarrow> bool" where
  "is_word_char c = (is_alpha c \<or> is_digit c \<or> c = CHR ''_'')"

text \<open>\<^verbatim>\<open>str.isspace\<close> on ASCII: tab to carriage return, the four separators, the space.\<close>

definition is_space :: "char \<Rightarrow> bool" where
  "is_space c = (let n = (of_char c :: nat) in (9 \<le> n \<and> n \<le> 13) \<or> (28 \<le> n \<and> n \<le> 32))"

text \<open>An upper-case letter and its lower-case form differ in bit 5 (the value 32) only.\<close>

definition lower_char :: "char \<Rightarrow> char" where
  "lower_char c =
     (if is_upper c
      then (case c of Char b0 b1 b2 b3 b4 b5 b6 b7 \<Rightarrow> Char b0 b1 b2 b3 b4 True b6 b7)
      else c)"

text \<open>\<^verbatim>\<open>s.lower()\<close>\<close>

definition lower :: "string \<Rightarrow> string" where
  "lower s = map lower_char s"

text \<open>\<^verbatim>\<open>s.strip()\<close>\<close>

definition strip :: "string \<Rightarrow> string" where
  "strip s = rev (dropWhile is_space (rev (dropWhile is_space s)))"

text \<open>\<^verbatim>\<open>k in s\<close> on strings: \<open>k\<close> occurs in \<open>s\<close> as a contiguous block.\<close>

fun contains :: "string \<Rightarrow> string \<Rightarrow> bool" where
  "contains k [] = (k = [])"
| "contains k (c # cs) = (prefix k (c # cs) \<or> contains k cs)"

text \<open>\<^verbatim>\<open>s.endswith(t)\<close>\<close>

definition endswith :: "string \<Rightarrow> string \<Rightarrow> bool" where
  "endswith s t = (length t \<le> length s \<and> drop (length s - length t) s = t)"

text \<open>
  \<^verbatim>\<open>s.replace(old, new)\<close>: the occurrences of \<open>old\<close> are replaced from left to right,
  without overlap; an empty \<open>old\<close> matches before every character and at the end.
\<close>

function replace :: "string \<Rightarrow> string \<Rightarrow> string \<Rightarrow> string" where
  "replace old new [] = (if old = [] then new else [])"
| "replace old new (c # cs) =
     (if old = [] then new @ c # replace old new cs
      else if prefix old (c # cs) then new @ replace old new (drop (length old) (c # cs))
      else c # replace old new cs)"
  by pat_completeness auto
termination
  by (relation "measure (\<lambda>(old, new, s). length s)") auto

text \<open>
  \<^verbatim>\<open>re.findall(r'\b[a-zA-Z]+\b', s)\<close>. A match starts and ends at a word boundary and
  holds letters only, so the matches are the maximal runs of word characters that
  consist of letters: a run such as \<^verbatim>\<open>abc123\<close> or \<^verbatim>\<open>ab_cd\<close> has no boundary inside and
  gives no match. \<open>word_runs cur s\<close> splits \<open>s\<close> into its maximal runs of word
  characters, \<open>cur\<close> being the run read so far, reversed.
\<close>

fun word_runs :: "string \<Rightarrow> string \<Rightarrow> string list" where
  "word_runs cur [] = (if cur = [] then [] else [rev cur])"
| "word_runs cur (c # cs) =
     (if is_word_char c then word_runs (c # cur) cs
      else (if cur = [] then [] else [rev cur]) @ word_runs [] cs)"

definition findall_alpha_words :: "string \<Rightarrow> string list" where
  "findall_alpha_words s = filter (\<lambda>w. list_all is_alpha w) (word_runs [] s)"

text \<open>\<^verbatim>\<open>str(n)\<close> for a natural number, used in the loader's progress line.\<close>

fun str_nat :: "nat \<Rightarrow> string" where
  "str_nat n =
     (if n < 10 then [char_of (48 + n)] else str_nat (n div 10) @ [char_of (48 + n mod 10)])"

subsection \<open>Data model\<close>

text \<open>
  The dictionary \<^verbatim>\<open>source\<close> that \<^verbatim>\<open>find_sources\<close> builds for an accepted result. Every
  source has all seven keys, so a lookup never raises \<^verbatim>\<open>KeyError\<close> and
  \<^verbatim>\<open>source.get('title', '')\<close> is the title.
\<close>

record source =
  s_url :: string
  s_domain :: string
  s_category :: string
  s_score :: rat
  s_text :: string
  s_title :: string
  s_snippet :: string

text \<open>The dictionary \<^verbatim>\<open>format_source\<close> returns.\<close>

record formatted_source =
  f_url :: string
  f_domain :: string
  f_category :: string
  f_title :: string
  f_text :: string
  f_timestamp :: string
  f_score :: rat

text \<open>The result of \<^verbatim>\<open>_create_paired_sets\<close> and of \<^verbatim>\<open>build\<close>.\<close>

record paired_sets =
  clear_set :: "formatted_source list"
  unclear_set :: "formatted_source list"

text \<open>The dictionary written to \<^verbatim>\<open>scraped_sources.json\<close> before pairing.\<close>

record scraped_data =
  sd_gold_query :: string
  sd_topic :: string
  sd_reliable :: nat
  sd_unreliable :: nat
  sd_unknown :: nat
  sd_total :: nat
  sd_sources :: "source list"
  sd_timestamp :: string

text \<open>A result of the search provider, with the keys the class reads; a key can be absent.\<close>

record ddgs_hit =
  hit_href :: "string option"
  hit_link :: "string option"
  hit_url :: "string option"
  hit_title :: "string option"
  hit_body :: "string option"

text \<open>The dictionary \<^verbatim>\<open>_search_duckduckgo\<close> returns for a hit.\<close>

record search_result =
  r_url :: string
  r_title :: string
  r_snippet :: string

text \<open>
  The parsed trust configuration, in the shape of its schema: the value of a topic key is
  an object, with its \<^verbatim>\<open>"reliable"\<close> and \<^verbatim>\<open>"misleading"\<close> arrays of domain strings (\<open>None\<close>
  for an absent key), or it is no object; the top level is an object (its items, in
  order) or another JSON value. Configurations whose domain arrays hold anything but
  strings are outside the model.
\<close>

datatype topic_cfg = TopicDict "string list option" "string list option" | NotADict

datatype config_json = ConfigObject "(string \<times> topic_cfg) list" | ConfigOther

subsection \<open>The world\<close>

text \<open>
  \<^item> \<open>open_read path\<close>: \<^verbatim>\<open>open(path, 'r')\<close> and reading the file.
  \<^item> \<open>json_load s\<close>: \<^verbatim>\<open>json.load\<close> on the content.
  \<^item> \<open>english_stop_words\<close>: sklearn's \<^verbatim>\<open>ENGLISH_STOP_WORDS\<close>.
  \<^item> \<open>ddgs_text q n\<close>: \<^verbatim>\<open>DDGS().text(q, region="wt-wt", safesearch="off", max_results=n)\<close>.
  \<^item> \<open>fetch_url\<close>, \<open>trafilatura_extract\<close>: \<^verbatim>\<open>trafilatura.fetch_url\<close>,
    \<^verbatim>\<open>trafilatura.extract\<close>; \<open>None\<close> is Python's \<^verbatim>\<open>None\<close>.
  \<^item> \<open>extraction_timed_out u\<close>: the extraction of \<open>u\<close> takes longer than the 10
    seconds \<^verbatim>\<open>future.result(timeout=10)\<close> waits.
  \<^item> \<open>token_set_ratio\<close>: \<^verbatim>\<open>rapidfuzz.fuzz.token_set_ratio\<close>.
  \<^item> \<open>bracketed_host_ok h\<close>: \<^verbatim>\<open>urllib.parse._check_bracketed_host(h)\<close> returns, that is,
    \<open>h\<close> is an IPv6 or IPvFuture address for the \<^verbatim>\<open>ipaddress\<close> module.
  \<^item> \<open>write_json name d\<close>: \<^verbatim>\<open>open(name, "w")\<close> and \<^verbatim>\<open>json.dump(d, f, indent=2)\<close>;
    \<open>Some e\<close> when it raises \<open>e\<close>.
  \<^item> \<open>now_iso k\<close>: \<^verbatim>\<open>datetime.now().isoformat()\<close> at the \<open>k\<close>-th reading of the clock.
  \<^item> \<open>random_draws k\<close>: the \<open>k\<close>-th number the global random generator yields.
\<close>

record world =
  open_read :: "string \<Rightarrow> exn + string"
  json_load :: "string \<Rightarrow> exn + config_json"
  english_stop_words :: "string set"
  ddgs_text :: "string \<Rightarrow> nat \<Rightarrow> exn + ddgs_hit list"
  fetch_url :: "string \<Rightarrow> exn + string option"
  trafilatura_extract :: "string \<Rightarrow> exn + string option"
  extraction_timed_out :: "string \<Rightarrow> bool"
  token_set_ratio :: "string \<Rightarrow> string \<Rightarrow> exn + rat"
  bracketed_host_ok :: "string \<Rightarrow> bool"
  write_json :: "string \<Rightarrow> scraped_data \<Rightarrow> exn option"
  now_iso :: "nat \<Rightarrow> string"
  random_draws :: "nat \<Rightarrow> nat"

text \<open>The fields of a \<^verbatim>\<open>SourceFinder\<close> object.\<close>

record source_finder =
  gold_query :: string
  domain_trust_config_path :: string
  topic :: string
  reliable_domains :: "string set"
  unreliable_domains :: "string set"
  stopwords :: "string set"
  search_queries :: "(string \<times> string list) list"

subsection \<open>Loading the trust configuration\<close>

text \<open>
  The loop of \<^verbatim>\<open>_load_domain_config\<close> over \<^verbatim>\<open>config.items()\<close>: a value that is no
  dictionary is skipped; \<^verbatim>\<open>topic_cfg.get(key, [])\<close> is the empty list for an absent key.
\<close>

fun union_topics :: "(string \<times> topic_cfg) list \<Rightarrow> string set \<times> string set \<Rightarrow> string set \<times> string set" where
  "union_topics [] (reliable, unreliable) = (reliable, unreliable)"
| "union_topics ((topic_key, NotADict) # rest) (reliable, unreliable) =
     union_topics rest (reliable, unreliable)"
| "union_topics ((topic_key, TopicDict rel mis) # rest) (reliable, unreliable) =
     union_topics rest
       (reliable \<union> set (case rel of None \<Rightarrow> [] | Some ds \<Rightarrow> ds),
        unreliable \<union> set (case mis of None \<Rightarrow> [] | Some ds \<Rightarrow> ds))"

text \<open>
  The two \<^verbatim>\<open>except\<close> clauses of \<^verbatim>\<open>_load_domain_config\<close>: \<^verbatim>\<open>FileNotFoundError\<close> and
  \<^verbatim>\<open>json.JSONDecodeError\<close> are recovered, with both sets empty and one line printed;
  any other exception is raised on. The result is the object after the call and the lines
  printed.
\<close>

definition load_failed :: "source_finder \<Rightarrow> exn \<Rightarrow> exn + source_finder \<times> string list" where
  "load_failed sf e =
     (if e = FileNotFoundError then
        Inr (sf\<lparr>reliable_domains := {}, unreliable_domains := {}\<rparr>,
             [''Warning: '' @ domain_trust_config_path sf @ '' not found, using empty domain lists''])
      else if e = JSONDecodeError then
        Inr (sf\<lparr>reliable_domains := {}, unreliable_domains := {}\<rparr>,
             [''Error: Invalid JSON in '' @ domain_trust_config_path sf])
      else Inl e)"

definition load_domain_config :: "world \<Rightarrow> source_finder \<Rightarrow> exn + source_finder \<times> string list" where
  "load_domain_config w sf =
     (case open_read w (domain_trust_config_path sf) of
        Inl e \<Rightarrow> load_failed sf e
      | Inr content \<Rightarrow>
          (case json_load w content of
             Inl e \<Rightarrow> load_failed sf e
           | Inr ConfigOther \<Rightarrow> load_failed sf AttributeError
           | Inr (ConfigObject items) \<Rightarrow>
               (let (reliable, unreliable) = union_topics items ({}, {});
                    sf' = sf\<lparr>reliable_domains := reliable, unreliable_domains := unreliable\<rparr>
                in Inr (sf',
                     [''Domain config loaded (global): '' @ str_nat (card (reliable_domains sf'))
                        @ '' reliable, '' @ str_nat (card (unreliable_domains sf'))
                        @ '' unreliable'']))))"

subsection \<open>Topic extraction and construction\<close>

text \<open>\<^verbatim>\<open>_extract_topic_from_query\<close>: the first group with a term that occurs in the query.\<close>

definition extract_topic_from_query :: "string \<Rightarrow> string" where
  "extract_topic_from_query query =
     (let query_lower = lower query;
          any_in = (\<lambda>topics. list_ex (\<lambda>t. contains t query_lower) topics)
      in if any_in [''health'', ''medical'', ''medicine'', ''disease'', ''treatment'']
           then ''public_health''
         else if any_in [''finance'', ''money'', ''investment'', ''economy''] then ''finance''
         else if any_in [''politics'', ''government'', ''election''] then ''politics''
         else if any_in [''technology'', ''tech'', ''software''] then ''technology''
         else if any_in [''sports'', ''game'', ''athletic''] then ''sports''
         else if any_in [''climate'', ''environment'', ''global warming''] then ''climate''
         else ''public_health'')"

text \<open>
  \<^verbatim>\<open>__init__\<close>: the topic, the empty domain sets, the configuration, the stop words and
  the query plan, in this order. An exception of the loader leaves the constructor.
\<close>

definition query_plan :: "string \<Rightarrow> (string \<times> string list) list" where
  "query_plan q =
     [(''reliable'',
         [q, q @ '' guidelines'', q @ '' research'', q @ '' government'', q @ '' academic'']),
      (''unreliable'',
         [q, q @ '' reddit'', q @ '' twitter'', q @ '' natural medicine'',
          q @ '' alternative treatment'', q @ '' conspiracy'', q @ '' natural news''])]"

definition init :: "world \<Rightarrow> string \<Rightarrow> string \<Rightarrow> exn + source_finder \<times> string list" where
  "init w q config_path =
     (let sf = \<lparr>gold_query = q, domain_trust_config_path = config_path,
                 topic = extract_topic_from_query q,
                 reliable_domains = {}, unreliable_domains = {},
                 stopwords = {}, search_queries = []\<rparr>
      in case load_domain_config w sf of
           Inl e \<Rightarrow> Inl e
         | Inr (sf', printed) \<Rightarrow>
             Inr (sf'\<lparr>stopwords := english_stop_words w, search_queries := query_plan q\<rparr>,
                  printed))"

subsection \<open>Relevance score\<close>

text \<open>\<^verbatim>\<open>_extract_keywords\<close>\<close>

definition extract_keywords :: "source_finder \<Rightarrow> string \<Rightarrow> string list" where
  "extract_keywords sf txt =
     (let words = findall_alpha_words (lower txt)
      in filter (\<lambda>word. word \<notin> stopwords sf \<and> length word > 2) words)"

text \<open>Python's \<^verbatim>\<open>/\<close>: a zero divisor raises.\<close>

definition py_div :: "rat \<Rightarrow> rat \<Rightarrow> exn + rat" where
  "py_div a b = (if b = 0 then Inl ZeroDivisionError else Inr (a / b))"

text \<open>
  Lines 124 to 126 of \<^verbatim>\<open>_compute_relevance_score\<close>: the keywords that occur in the
  lower-cased text are counted, each as often as it stands in the keyword list, and the
  count is divided by the length of the list.
\<close>

definition keyword_hits :: "string list \<Rightarrow> string \<Rightarrow> nat" where
  "keyword_hits query_keywords txt =
     (let text_lower = lower txt
      in length (filter (\<lambda>keyword. contains keyword text_lower) query_keywords))"

definition keyword_hit_rate :: "string list \<Rightarrow> string \<Rightarrow> exn + rat" where
  "keyword_hit_rate query_keywords txt =
     py_div (of_nat (keyword_hits query_keywords txt)) (of_nat (length query_keywords))"

text \<open>\<^verbatim>\<open>_compute_relevance_score\<close>\<close>

definition compute_relevance_score :: "world \<Rightarrow> source_finder \<Rightarrow> string \<Rightarrow> string \<Rightarrow> exn + rat" where
  "compute_relevance_score w sf query txt =
     (let query_keywords = extract_keywords sf query
      in if query_keywords = [] then Inr 0
         else (case keyword_hit_rate query_keywords txt of
                 Inl e \<Rightarrow> Inl e
               | Inr hit_rate \<Rightarrow>
                   (case token_set_ratio w query (take 5000 txt) of
                      Inl e \<Rightarrow> Inl e
                    | Inr ratio \<Rightarrow>
                        (let fuzzy_score = ratio / 100
                         in Inr (6 / 10 * hit_rate + 4 / 10 * fuzzy_score)))))"

subsection \<open>Domain classification\<close>

text \<open>
  \<^verbatim>\<open>urlparse(url).netloc\<close>, after \<^verbatim>\<open>urllib.parse.urlsplit\<close> of Python 3.11:
  \<^item> the leading characters up to the space (the codes 0 to 32) are stripped, and every
    tab, carriage return and line feed is removed;
  \<^item> a scheme is cut off: the text before the first colon, when it is not empty, starts
    with a letter and holds letters, digits, \<^verbatim>\<open>+\<close>, \<^verbatim>\<open>-\<close> and \<^verbatim>\<open>.\<close> only;
  \<^item> if the rest starts with \<^verbatim>\<open>//\<close>, the netloc is what follows up to the first \<^verbatim>\<open>/\<close>, \<^verbatim>\<open>?\<close>
    or \<^verbatim>\<open>#\<close>, and it is empty otherwise; the netloc keeps user information and port;
  \<^item> a netloc with one of \<^verbatim>\<open>[\<close> and \<^verbatim>\<open>]\<close> but not the other raises \<^verbatim>\<open>ValueError\<close>; with
    both, the text after the first \<^verbatim>\<open>[\<close> and before the next \<^verbatim>\<open>]\<close> is checked as a bracketed
    host, and \<^verbatim>\<open>ValueError\<close> is raised when the check fails.
  The check \<^verbatim>\<open>_checknetloc\<close> returns at once on ASCII.
\<close>

definition is_scheme_char :: "char \<Rightarrow> bool" where
  "is_scheme_char c = (is_alpha c \<or> is_digit c \<or> c \<in> set ''+-.'')"

definition is_c0_control_or_space :: "char \<Rightarrow> bool" where
  "is_c0_control_or_space c = ((of_char c :: nat) \<le> 32)"

definition is_unsafe_url_byte :: "char \<Rightarrow> bool" where
  "is_unsafe_url_byte c = ((of_char c :: nat) \<in> {9, 13, 10})"

text \<open>The checks of the brackets of a netloc.\<close>

definition check_brackets :: "world \<Rightarrow> string \<Rightarrow> exn + string" where
  "check_brackets w netloc =
     (let opening = (CHR ''['' \<in> set netloc);
          closing = (CHR '']'' \<in> set netloc)
      in if (opening \<and> \<not> closing) \<or> (closing \<and> \<not> opening) then Inl ValueError
         else if opening \<and> closing
                 \<and> \<not> bracketed_host_ok w
                       (takeWhile (\<lambda>c. c \<noteq> CHR '']'')
                          (drop 1 (dropWhile (\<lambda>c. c \<noteq> CHR ''['') netloc)))
         then Inl ValueError
         else Inr netloc)"

text \<open>The url after the stripping and with its scheme cut off.\<close>

definition after_scheme :: "string \<Rightarrow> string" where
  "after_scheme u =
     (let u1 = dropWhile is_c0_control_or_space u;
          u2 = filter (\<lambda>c. \<not> is_unsafe_url_byte c) u1;
          pre = takeWhile (\<lambda>c. c \<noteq> CHR '':'') u2
      in if length pre < length u2 \<and> pre \<noteq> [] \<and> is_alpha (hd pre)
            \<and> list_all is_scheme_char pre
         then drop (length pre + 1) u2 else u2)"

definition urlparse_netloc :: "world \<Rightarrow> string \<Rightarrow> exn + string" where
  "urlparse_netloc w u =
     (let rest = after_scheme u
      in if take 2 rest = ''//''
         then check_brackets w (takeWhile (\<lambda>c. c \<notin> set ''/?#'') (drop 2 rest))
         else Inr [])"

text \<open>The test of \<^verbatim>\<open>_classify_domain\<close> for one entry \<open>d\<close> of a trust set.\<close>

definition domain_matches :: "string \<Rightarrow> string \<Rightarrow> bool" where
  "domain_matches domain d = (domain = d \<or> endswith domain (''.'' @ d))"

text \<open>
  \<^verbatim>\<open>_classify_domain\<close>: an exception of the \<^verbatim>\<open>try\<close> block, which only \<^verbatim>\<open>urlparse\<close> can
  raise, is caught and gives \<^verbatim>\<open>unknown\<close>.
\<close>

definition classify_domain :: "world \<Rightarrow> source_finder \<Rightarrow> string \<Rightarrow> string" where
  "classify_domain w sf u =
     (case urlparse_netloc w u of
        Inl e \<Rightarrow> ''unknown''
      | Inr netloc \<Rightarrow>
          (let domain = replace ''www.'' [] (lower netloc)
           in if \<exists>d \<in> reliable_domains sf. domain_matches domain d then ''reliable''
              else if \<exists>d \<in> unreliable_domains sf. domain_matches domain d then ''unreliable''
              else ''unknown''))"

subsection \<open>Search and extraction\<close>

text \<open>Python's truth value of \<^verbatim>\<open>None\<close> or a string: false for \<^verbatim>\<open>None\<close> and for \<^verbatim>\<open>''\<close>.\<close>

definition truthy :: "string option \<Rightarrow> bool" where
  "truthy v = (case v of None \<Rightarrow> False | Some s \<Rightarrow> s \<noteq> [])"

text \<open>
  The body of the loop of \<^verbatim>\<open>_search_duckduckgo\<close>: the url is the first of \<^verbatim>\<open>href\<close>,
  \<^verbatim>\<open>link\<close>, \<^verbatim>\<open>url\<close> that is true; a hit without one is skipped.
\<close>

definition hit_to_result :: "ddgs_hit \<Rightarrow> search_result option" where
  "hit_to_result h =
     (let u = (if truthy (hit_href h) then hit_href h
               else if truthy (hit_link h) then hit_link h
               else hit_url h)
      in case u of
           None \<Rightarrow> None
         | Some a \<Rightarrow>
             if a = [] then None
             else Some \<lparr>r_url = a,
                        r_title = (case hit_title h of None \<Rightarrow> [] | Some t \<Rightarrow> t),
                        r_snippet = (case hit_body h of None \<Rightarrow> [] | Some b \<Rightarrow> b)\<rparr>)"

text \<open>\<^verbatim>\<open>_search_duckduckgo\<close>: an exception of the provider is caught, the result is empty.\<close>

definition search_duckduckgo :: "world \<Rightarrow> string \<Rightarrow> nat \<Rightarrow> search_result list" where
  "search_duckduckgo w query max_results =
     (case ddgs_text w query max_results of
        Inl e \<Rightarrow> []
      | Inr hits \<Rightarrow> List.map_filter hit_to_result hits)"

text \<open>The inner function \<^verbatim>\<open>_do_extract\<close>: every exception is caught and gives \<^verbatim>\<open>None\<close>.\<close>

definition do_extract :: "world \<Rightarrow> string \<Rightarrow> string option" where
  "do_extract w u =
     (case fetch_url w u of
        Inl e \<Rightarrow> None
      | Inr downloaded \<Rightarrow>
          (case downloaded of
             None \<Rightarrow> None
           | Some page \<Rightarrow>
               if page = [] then None
               else (case trafilatura_extract w page of
                       Inl e \<Rightarrow> None
                     | Inr extracted \<Rightarrow>
                         (case extracted of
                            None \<Rightarrow> None
                          | Some t \<Rightarrow> if t = [] then None else Some (strip t)))))"

text \<open>
  \<^verbatim>\<open>_extract_text_from_url\<close>: a timeout gives \<^verbatim>\<open>None\<close>; the text is returned when it
  is not empty and has at least 400 characters.
\<close>

definition extract_text_from_url :: "world \<Rightarrow> string \<Rightarrow> string option" where
  "extract_text_from_url w u =
     (if extraction_timed_out w u then None
      else (case do_extract w u of
              None \<Rightarrow> None
            | Some t \<Rightarrow> if t \<noteq> [] \<and> length t \<ge> 400 then Some t else None))"

subsection \<open>Collecting the sources\<close>

text \<open>
  The body of the innermost loop of \<^verbatim>\<open>find_sources\<close> for one search result:
  \<open>Inr None\<close> when the result is rejected (\<^verbatim>\<open>continue\<close>), \<open>Inr (Some source)\<close> when
  \<open>source\<close> is appended to \<^verbatim>\<open>all_sources\<close>, \<open>Inl e\<close> when \<open>e\<close> is raised. The fuzzy
  matcher can raise in the score; \<^verbatim>\<open>urlparse\<close> is called a second time for the key
  \<^verbatim>\<open>'domain'\<close> (line 244), outside any \<^verbatim>\<open>try\<close>, after the domain was classified.
\<close>

definition process_result :: "world \<Rightarrow> source_finder \<Rightarrow> search_result \<Rightarrow> exn + source option" where
  "process_result w sf result =
     (let u = r_url result
      in case extract_text_from_url w u of
           None \<Rightarrow> Inr None
         | Some txt \<Rightarrow>
             (case compute_relevance_score w sf (gold_query sf) txt of
                Inl e \<Rightarrow> Inl e
              | Inr sc \<Rightarrow>
                  if sc < 35 / 100 then Inr None
                  else (let category = classify_domain w sf u
                        in case urlparse_netloc w u of
                             Inl e \<Rightarrow> Inl e
                           | Inr netloc \<Rightarrow>
                               Inr (Some \<lparr>s_url = u,
                                          s_domain = replace ''www.'' [] netloc,
                                          s_category = category,
                                          s_score = sc,
                                          s_text = take 1000 txt,
                                          s_title = r_title result,
                                          s_snippet = r_snippet result\<rparr>))))"

text \<open>The loop over the results of one query; an exception ends it.\<close>

fun process_results :: "world \<Rightarrow> source_finder \<Rightarrow> search_result list \<Rightarrow> source list \<Rightarrow> exn + source list" where
  "process_results w sf [] all_sources = Inr all_sources"
| "process_results w sf (result # rest) all_sources =
     (case process_result w sf result of
        Inl e \<Rightarrow> Inl e
      | Inr None \<Rightarrow> process_results w sf rest all_sources
      | Inr (Some source) \<Rightarrow> process_results w sf rest (all_sources @ [source]))"

text \<open>The loop over the queries of one source type, each searched with 15 results at most.\<close>

fun run_queries :: "world \<Rightarrow> source_finder \<Rightarrow> string list \<Rightarrow> source list \<Rightarrow> exn + source list" where
  "run_queries w sf [] all_sources = Inr all_sources"
| "run_queries w sf (query # queries) all_sources =
     (case process_results w sf (search_duckduckgo w query 15) all_sources of
        Inl e \<Rightarrow> Inl e
      | Inr all_sources' \<Rightarrow> run_queries w sf queries all_sources')"

text \<open>The loop over \<^verbatim>\<open>self.search_queries.items()\<close>.\<close>

fun run_plan :: "world \<Rightarrow> source_finder \<Rightarrow> (string \<times> string list) list \<Rightarrow> source list \<Rightarrow> exn + source list" where
  "run_plan w sf [] all_sources = Inr all_sources"
| "run_plan w sf ((source_type, queries) # plan) all_sources =
     (case run_queries w sf queries all_sources of
        Inl e \<Rightarrow> Inl e
      | Inr all_sources' \<Rightarrow> run_plan w sf plan all_sources')"

subsection \<open>Pairing\<close>

text \<open>
  \<^verbatim>\<open>random.shuffle(x)\<close>: for \<open>i\<close> from \<open>len(x) - 1\<close> down to 1, a position \<open>j\<close> below
  \<open>i + 1\<close> is drawn and \<open>x[i]\<close>, \<open>x[j]\<close> are exchanged. \<open>draws k\<close> is the \<open>k\<close>-th number
  of the generator, reduced below \<open>i + 1\<close>; a shuffle of \<open>n\<close> elements uses \<open>n - 1\<close>
  numbers.
\<close>

fun shuffle_from :: "(nat \<Rightarrow> nat) \<Rightarrow> nat \<Rightarrow> nat \<Rightarrow> 'a list \<Rightarrow> 'a list" where
  "shuffle_from draws k 0 x = x"
| "shuffle_from draws k (Suc i) x =
     (let j = draws k mod (Suc i + 1)
      in shuffle_from draws (Suc k) i (x[Suc i := x ! j, j := x ! Suc i]))"

definition shuffle :: "(nat \<Rightarrow> nat) \<Rightarrow> nat \<Rightarrow> 'a list \<Rightarrow> 'a list" where
  "shuffle draws k x = shuffle_from draws k (length x - 1) x"

text \<open>\<^verbatim>\<open>format_source\<close>, with the reading of the clock it makes.\<close>

definition format_source :: "world \<Rightarrow> nat \<Rightarrow> source \<Rightarrow> formatted_source" where
  "format_source w k source =
     \<lparr>f_url = s_url source, f_domain = s_domain source, f_category = s_category source,
      f_title = s_title source, f_text = s_text source, f_timestamp = now_iso w k,
      f_score = s_score source\<rparr>"

text \<open>\<^verbatim>\<open>[format_source(s) for s in xs]\<close>, the clock read for the \<open>k\<close>-th time at the first.\<close>

fun format_sources :: "world \<Rightarrow> nat \<Rightarrow> source list \<Rightarrow> formatted_source list" where
  "format_sources w k [] = []"
| "format_sources w k (s # xs) = format_source w k s # format_sources w (Suc k) xs"

text \<open>
  \<^verbatim>\<open>_create_paired_sets\<close>. \<open>k\<close> counts the readings of the clock before the call. The
  slice \<^verbatim>\<open>x[1:4]\<close> is \<open>take 3 (drop 1 x)\<close>, \<^verbatim>\<open>x[1:]\<close> is \<open>drop 1 x\<close>; the indexed reads
  \<^verbatim>\<open>x[0]\<close> and \<^verbatim>\<open>x[4]\<close> stand under the length tests of the source.
\<close>

definition create_paired_sets :: "world \<Rightarrow> nat \<Rightarrow> source list \<Rightarrow> paired_sets" where
  "create_paired_sets w k sources =
     (let reliable_sources = filter (\<lambda>s. s_category s = ''reliable'') sources;
          unreliable_sources = filter (\<lambda>s. s_category s = ''unreliable'') sources;
          unknown_sources = filter (\<lambda>s. s_category s = ''unknown'') sources;
          reliable_sources = shuffle (random_draws w) 0 reliable_sources;
          unreliable_sources =
            shuffle (random_draws w) (length reliable_sources - 1) unreliable_sources;
          clear =
            (if length reliable_sources \<ge> 4 then take 4 reliable_sources else reliable_sources)
            @ (if length unreliable_sources \<ge> 1 then [unreliable_sources ! 0] else []);
          unclear =
            (if length reliable_sources \<ge> 5 then [reliable_sources ! 4] else [])
            @ (if length unreliable_sources \<ge> 4 then take 3 (drop 1 unreliable_sources)
               else drop 1 unreliable_sources)
      in \<lparr>clear_set = format_sources w k clear,
          unclear_set = format_sources w (k + length clear) unclear\<rparr>)"

subsection \<open>The run\<close>

text \<open>
  \<^verbatim>\<open>find_sources\<close>: the sources are collected, written to \<^verbatim>\<open>scraped_sources.json\<close>
  (an exception of the write is caught) and paired. The result is the paired sets and
  the content of the file when it was written.
\<close>

definition find_sources :: "world \<Rightarrow> source_finder \<Rightarrow> exn + paired_sets \<times> scraped_data option" where
  "find_sources w sf =
     (case run_plan w sf (search_queries sf) [] of
        Inl e \<Rightarrow> Inl e
      | Inr all_sources \<Rightarrow>
          (let data =
                 \<lparr>sd_gold_query = gold_query sf, sd_topic = topic sf,
                  sd_reliable = length (filter (\<lambda>s. s_category s = ''reliable'') all_sources),
                  sd_unreliable = length (filter (\<lambda>s. s_category s = ''unreliable'') all_sources),
                  sd_unknown = length (filter (\<lambda>s. s_category s = ''unknown'') all_sources),
                  sd_total = length all_sources,
                  sd_sources = all_sources,
                  sd_timestamp = now_iso w 0\<rparr>;
               written = (case write_json w ''scraped_sources.json'' data of
                            Some e \<Rightarrow> None
                          | None \<Rightarrow> Some data)
           in Inr (create_paired_sets w 1 all_sources, written)))"

text \<open>
  \<^verbatim>\<open>build\<close>: the \<^verbatim>\<open>try\<close> block calls \<^verbatim>\<open>find_sources\<close> and returns its two sets; the
  handler of \<^verbatim>\<open>except Exception\<close> returns the empty sets. \<open>Inl e\<close> would be an exception
  that \<^verbatim>\<open>build\<close> raises to its caller.
\<close>

definition build :: "world \<Rightarrow> source_finder \<Rightarrow> exn + paired_sets" where
  "build w sf =
     (case find_sources w sf of
        Inl e \<Rightarrow> Inr \<lparr>clear_set = [], unclear_set = []\<rparr>
      | Inr (paired, written) \<Rightarrow>
          Inr \<lparr>clear_set = clear_set paired, unclear_set = unclear_set paired\<rparr>)"

subsection \<open>The classifier in the words of the specification\<close>

text \<open>
  The specification of the classifier, for comparison with \<open>classify_domain\<close>: the host
  of the URL (the netloc without user information and port) is lower-cased, a leading
  \<^verbatim>\<open>www.\<close> is stripped, and a domain matches an entry when it is the entry or ends with a dot
  and the entry; the reliable table is asked first; a URL whose host cannot be parsed is
  unknown.
\<close>

definition host_of_netloc :: "string \<Rightarrow> string" where
  "host_of_netloc netloc =
     takeWhile (\<lambda>c. c \<noteq> CHR '':'')
       (rev (takeWhile (\<lambda>c. c \<noteq> CHR ''@'') (rev netloc)))"

definition strip_leading_www :: "string \<Rightarrow> string" where
  "strip_leading_www s = (if prefix ''www.'' s then drop 4 s else s)"

definition spec_matches :: "string \<Rightarrow> string \<Rightarrow> bool" where
  "spec_matches d e = (d = e \<or> suffix (''.'' @ e) d)"

definition spec_classify :: "world \<Rightarrow> string set \<Rightarrow> string set \<Rightarrow> string \<Rightarrow> string" where
  "spec_classify w reliable unreliable u =
     (case urlparse_netloc w u of
        Inl e \<Rightarrow> ''unknown''
      | Inr netloc \<Rightarrow>
          (let d = strip_leading_www (lower (host_of_netloc netloc))
           in if \<exists>e \<in> reliable. spec_matches d e then ''reliable''
              else if \<exists>e \<in> unreliable. spec_matches d e then ''unreliable''
              else ''unknown''))"

subsection \<open>Example inputs\<close>

text \<open>
  A finder for the query \<^verbatim>\<open>flu vaccine\<close> with one reliable and one unreliable domain, and
  a world in which one query of the plan finds one page of 1204 characters on a reliable
  host.
\<close>

definition example_finder :: source_finder where
  "example_finder =
     \<lparr>gold_query = ''flu vaccine'', domain_trust_config_path = ''domain_trust_config.json'',
      topic = ''public_health'',
      reliable_domains = {''example.org''}, unreliable_domains = {''rumour.net''},
      stopwords = {''the'', ''and''}, search_queries = query_plan ''flu vaccine''\<rparr>"

definition example_page :: string where
  "example_page = ''flu '' @ replicate 1200 (CHR ''x'')"

definition example_hit :: ddgs_hit where
  "example_hit =
     \<lparr>hit_href = Some ''http://sub.example.org/a'', hit_link = None, hit_url = None,
      hit_title = Some ''Flu'', hit_body = None\<rparr>"

definition example_world :: world where
  "example_world =
     \<lparr>open_read = (\<lambda>path. Inl FileNotFoundError),
      json_load = (\<lambda>content. Inl JSONDecodeError),
      english_stop_words = {''the'', ''and''},
      ddgs_text = (\<lambda>q n. if q = ''flu vaccine guidelines'' then Inr [example_hit] else Inr []),
      fetch_url = (\<lambda>u. Inr (Some ''<html>'')),
      trafilatura_extract = (\<lambda>page. Inr (Some example_page)),
      extraction_timed_out = (\<lambda>u. False),
      token_set_ratio = (\<lambda>a b. Inr 50),
      bracketed_host_ok = (\<lambda>h. False),
      write_json = (\<lambda>name d. None),
      now_iso = (\<lambda>k. ''2024-01-01T00:00:00''),
      random_draws = (\<lambda>k. 0)\<rparr>"

text \<open>The source the example run accepts.\<close>

definition example_source :: source where
  "example_source =
     \<lparr>s_url = ''http://sub.example.org/a'', s_domain = ''sub.example.org'',
      s_category = ''reliable'', s_score = 1 / 2,
      s_text = ''flu '' @ replicate 996 (CHR ''x''),
      s_title = ''Flu'', s_snippet = []\<rparr>"

text \<open>Sources with the category and the url given, for the pairing.\<close>

definition mk_source :: "string \<Rightarrow> string \<Rightarrow> source" where
  "mk_source c u =
     \<lparr>s_url = u, s_domain = ''example.org'', s_category = c, s_score = 1 / 2,
      s_text = ''text'', s_title = ''title'', s_snippet = []\<rparr>"

text \<open>
  Inputs of the pairing: a page that five queries found, collected five times; six copies
  of a reliable and five copies of an unreliable source; and pools with pairwise
  distinct urls, full and short of unreliable sources.
\<close>

definition found_five_times :: "source list" where
  "found_five_times = replicate 5 (mk_source ''reliable'' ''http://example.org/a'')"

definition repeated_pools :: "source list" where
  "repeated_pools =
     replicate 6 (mk_source ''reliable'' ''http://example.org/a'')
     @ replicate 5 (mk_source ''unreliable'' ''http://rumour.net/b'')"

definition full_pools :: "source list" where
  "full_pools =
     [mk_source ''reliable'' ''http://example.org/1'', mk_source ''unreliable'' ''http://rumour.net/1'',
      mk_source ''reliable'' ''http://example.org/2'', mk_source ''unreliable'' ''http://rumour.net/2'',
      mk_source ''reliable'' ''http://example.org/3'', mk_source ''unreliable'' ''http://rumour.net/3'',
      mk_source ''reliable'' ''http://example.org/4'', mk_source ''unreliable'' ''http://rumour.net/4'',
      mk_source ''reliable'' ''http://example.org/5'', mk_source ''unreliable'' ''http://rumour.net/5'',
      mk_source ''reliable'' ''http://example.org/6'', mk_source ''unknown'' ''http://other.com/1'',
      mk_source ''unknown'' ''http://example.org/1'']"

definition mixed_pools :: "source list" where
  "mixed_pools =
     [mk_source ''reliable'' ''http://example.org/1'', mk_source ''unknown'' ''http://other.com/1'',
      mk_source ''reliable'' ''http://example.org/2'', mk_source ''unreliable'' ''http://rumour.net/1'',
      mk_source ''reliable'' ''http://example.org/3'', mk_source ''unreliable'' ''http://rumour.net/2'',
      mk_source ''reliable'' ''http://example.org/4'', mk_source ''reliable'' ''http://example.org/5'']"

text \<open>
  The search result of the example hit; the example world with a write of the snapshot
  that fails, and with a fuzzy matcher that raises.
\<close>

definition example_result :: search_result where
  "example_result = \<lparr>r_url = ''http://sub.example.org/a'', r_title = ''Flu'', r_snippet = []\<rparr>"

definition failing_dump_world :: world where
  "failing_dump_world = example_world\<lparr>write_json := (\<lambda>name d. Some PermissionError)\<rparr>"

definition raising_world :: world where
  "raising_world = example_world\<lparr>token_set_ratio := (\<lambda>a b. Inl (OtherError ''injected''))\<rparr>"

text \<open>
  The example world with a configuration file that holds invalid JSON, that cannot be
  read for lack of permission, and that holds a JSON array.
\<close>

definition broken_json_world :: world where
  "broken_json_world = example_world\<lparr>open_read := (\<lambda>path. Inr ''{public_health: '')\<rparr>"

definition denied_world :: world where
  "denied_world = example_world\<lparr>open_read := (\<lambda>path. Inl PermissionError)\<rparr>"

definition array_config_world :: world where
  "array_config_world =
     example_world\<lparr>open_read := (\<lambda>path. Inr ''[]''), json_load := (\<lambda>content. Inr ConfigOther)\<rparr>"

text \<open>
  The example world with a search provider whose hit has a url with an opening bracket
  and no closing one; the page of the hit is the example page.
\<close>

definition bracket_result :: search_result where
  "bracket_result = \<lparr>r_url = ''http://[sub.example.org/a'', r_title = ''Flu'', r_snippet = []\<rparr>"

definition bracket_world :: world where
  "bracket_world =
     example_world\<lparr>ddgs_text :=
       (\<lambda>q n. if q = ''flu vaccine guidelines''
              then Inr [example_hit\<lparr>hit_href := Some ''http://[sub.example.org/a''\<rparr>]
              else Inr [])\<rparr>"

section \<open>Properties\<close>

lemmas char_class_defs =
  is_upper_def is_lower_def is_digit_def is_alpha_def is_word_char_def is_space_def
  is_scheme_char_def is_c0_control_or_space_def is_unsafe_url_byte_def lower_char_def lower_def

lemmas urlparse_defs = urlparse_netloc_def after_scheme_def check_brackets_def

subsection \<open>Relevance score\<close>

lemma contains_sublist: "contains k s = sublist k s"
  by (induction s) (simp_all add: sublist_Cons_right)




lemma keyword_hits_le_length: "keyword_hits ks body \<le> length ks"
  by (simp add: keyword_hits_def)


lemma keyword_hit_rate_nonempty:
  "ks \<noteq> [] \<Longrightarrow>
   keyword_hit_rate ks body = Inr (of_nat (keyword_hits ks body) / of_nat (length ks))"
  by (simp add: keyword_hit_rate_def py_div_def)

lemma hit_fraction_bounds:
  "ks \<noteq> [] \<Longrightarrow> 0 \<le> (of_nat (keyword_hits ks body) / of_nat (length ks) :: rat)
     \<and> (of_nat (keyword_hits ks body) / of_nat (length ks) :: rat) \<le> 1"
  using keyword_hits_le_length [of ks body] by (simp add: divide_le_eq)

lemma compute_relevance_score_nonempty:
  "extract_keywords sf query \<noteq> [] \<Longrightarrow>
   compute_relevance_score w sf query body =
     (case token_set_ratio w query (take 5000 body) of
        Inl e \<Rightarrow> Inl e
      | Inr ratio \<Rightarrow>
          Inr (6 / 10 * (of_nat (keyword_hits (extract_keywords sf query) body)
                          / of_nat (length (extract_keywords sf query)))
               + 4 / 10 * (ratio / 100)))"
  by (simp add: compute_relevance_score_def Let_def keyword_hit_rate_nonempty split: sum.splits)

lemma compute_relevance_score_empty:
  "extract_keywords sf query = [] \<Longrightarrow> compute_relevance_score w sf query body = Inr 0"
  by (simp add: compute_relevance_score_def)

text \<open>
  Claim C6. Whenever the fuzzy matcher returns a ratio between 0 and 100, the scorer
  returns a score between 0 and 1: the score 0 for a query without keywords, and
  otherwise 0.6 times the keyword hit rate plus 0.4 times the ratio divided by 100.
\<close>

theorem relevance_score_in_unit_interval:
  assumes "token_set_ratio w query (take 5000 body) = Inr ratio"
    and "0 \<le> ratio" and "ratio \<le> 100"
  shows "\<exists>sc. compute_relevance_score w sf query body = Inr sc \<and> 0 \<le> sc \<and> sc \<le> 1 \<and>
           sc = (if extract_keywords sf query = [] then 0
                 else 6 / 10 * (of_nat (keyword_hits (extract_keywords sf query) body)
                                 / of_nat (length (extract_keywords sf query)))
                      + 4 / 10 * (ratio / 100))"
proof (cases "extract_keywords sf query = []")
  case True
  then show ?thesis by (simp add: compute_relevance_score_empty)
next
  case False
  define hr :: rat where
    "hr = of_nat (keyword_hits (extract_keywords sf query) body)
            / of_nat (length (extract_keywords sf query))"
  have hr: "0 \<le> hr" "hr \<le> 1"
    using hit_fraction_bounds [OF False, of body] by (simp_all add: hr_def)
  have sc: "compute_relevance_score w sf query body = Inr (6 / 10 * hr + 4 / 10 * (ratio / 100))"
    using False assms(1) by (simp add: compute_relevance_score_nonempty hr_def)
  have "0 \<le> 6 / 10 * hr + 4 / 10 * (ratio / 100)"
    using hr(1) assms(2) by simp
  moreover have "6 / 10 * hr + 4 / 10 * (ratio / 100) \<le> 1"
    using hr(2) assms(3) by simp
  ultimately show ?thesis
    using sc False by (simp add: hr_def)
qed

text \<open>
  Claim C7. A query whose keyword list is empty scores 0 on every text. For a query with
  keywords the division by the number of keywords is performed and returns the quotient;
  so the scorer raises only what the fuzzy matcher raises, and only for a query with
  keywords: the division never raises.
\<close>

theorem empty_keywords_score_zero:
  "(extract_keywords sf query = [] \<longrightarrow> compute_relevance_score w sf query body = Inr 0) \<and>
   (extract_keywords sf query \<noteq> [] \<longrightarrow>
      keyword_hit_rate (extract_keywords sf query) body
        = Inr (of_nat (keyword_hits (extract_keywords sf query) body)
                / of_nat (length (extract_keywords sf query)))) \<and>
   (\<forall>e. compute_relevance_score w sf query body = Inl e \<longrightarrow>
      extract_keywords sf query \<noteq> [] \<and> token_set_ratio w query (take 5000 body) = Inl e)"
proof (intro conjI impI allI)
  assume "extract_keywords sf query = []"
  then show "compute_relevance_score w sf query body = Inr 0"
    by (rule compute_relevance_score_empty)
next
  assume "extract_keywords sf query \<noteq> []"
  then show "keyword_hit_rate (extract_keywords sf query) body
        = Inr (of_nat (keyword_hits (extract_keywords sf query) body)
                / of_nat (length (extract_keywords sf query)))"
    by (rule keyword_hit_rate_nonempty)
next
  fix e assume e: "compute_relevance_score w sf query body = Inl e"
  then show "extract_keywords sf query \<noteq> []"
    by (auto simp: compute_relevance_score_empty)
  with e show "token_set_ratio w query (take 5000 body) = Inl e"
    by (auto simp: compute_relevance_score_nonempty split: sum.splits)
qed



lemma lower_char_not_upper: "\<not> is_upper (lower_char c)"
proof (cases c)
  case (Char b0 b1 b2 b3 b4 b5 b6 b7)
  then show ?thesis
    by (auto simp: lower_char_def is_upper_def)
qed

lemma lower_char_idem: "lower_char (lower_char c) = lower_char c"
  using lower_char_not_upper [of c] by (simp add: lower_char_def [of "lower_char c"])

lemma lower_idem: "lower (lower s) = lower s"
  by (simp add: lower_def lower_char_idem)





subsection \<open>Pairing\<close>

lemma shuffle_from_mset: "i < length x \<or> i = 0 \<Longrightarrow> mset (shuffle_from draws k i x) = mset x"
proof (induction i arbitrary: k x)
  case 0
  then show ?case by simp
next
  case (Suc i)
  let ?j = "draws k mod (Suc i + 1)"
  from Suc.prems have i: "Suc i < length x" by simp
  have j: "?j < length x" using i by (simp add: less_trans_Suc mod_less_divisor [THEN order_less_le_trans])
  have "mset (x[Suc i := x ! ?j, ?j := x ! Suc i]) = mset x"
    using mset_swap [OF j i] by simp
  moreover have "mset (shuffle_from draws (Suc k) i (x[Suc i := x ! ?j, ?j := x ! Suc i]))
                 = mset (x[Suc i := x ! ?j, ?j := x ! Suc i])"
    using i by (intro Suc.IH) simp
  ultimately show ?case by (simp add: Let_def)
qed

lemma shuffle_mset: "mset (shuffle draws k x) = mset x"
  unfolding shuffle_def by (rule shuffle_from_mset) (cases x; simp)

lemma shuffle_set: "set (shuffle draws k x) = set x"
  using shuffle_mset [of draws k x] by (rule mset_eq_setD)

lemma shuffle_length: "length (shuffle draws k x) = length x"
  using shuffle_mset [of draws k x] by (rule mset_eq_length)

lemma format_sources_length: "length (format_sources w k xs) = length xs"
  by (induction xs arbitrary: k) simp_all

lemma format_sources_url: "map f_url (format_sources w k xs) = map s_url xs"
  by (induction xs arbitrary: k) (simp_all add: format_source_def)

lemma format_sources_category: "map f_category (format_sources w k xs) = map s_category xs"
  by (induction xs arbitrary: k) (simp_all add: format_source_def)

lemma format_sources_text: "map f_text (format_sources w k xs) = map s_text xs"
  by (induction xs arbitrary: k) (simp_all add: format_source_def)

text \<open>The four slices of the pairing, written with \<open>take\<close> and \<open>drop\<close>.\<close>

lemma clear_reliable_slice: "(if length x \<ge> 4 then take 4 x else x) = take 4 x"
  by simp

lemma clear_unreliable_slice: "(if length x \<ge> 1 then [x ! 0] else []) = take 1 x"
  by (cases x) simp_all

lemma unclear_reliable_slice: "(if length x \<ge> 5 then [x ! 4] else []) = take 1 (drop 4 x)"
proof (cases "length x \<ge> 5")
  case True
  then have "drop 4 x = x ! 4 # drop 5 x"
    using Cons_nth_drop_Suc [of 4 x] by simp
  with True show ?thesis by simp
next
  case False
  then have "drop 4 x = [] \<or> (\<exists>a. drop 4 x = [a])" 
    by (cases "drop 4 x") auto
  then show ?thesis using False by (auto simp: not_le)
qed


lemma unclear_unreliable_slice:
  "(if length x \<ge> 4 then take 3 (drop 1 x) else drop 1 x) = take 3 (drop 1 x)"
  by simp

lemma create_paired_sets_slices:
  "create_paired_sets w k sources =
     (let rs = shuffle (random_draws w) 0 (filter (\<lambda>s. s_category s = ''reliable'') sources);
          us = shuffle (random_draws w) (length rs - 1)
                 (filter (\<lambda>s. s_category s = ''unreliable'') sources);
          clear = take 4 rs @ take 1 us;
          unclear = take 1 (drop 4 rs) @ take 3 (drop 1 us)
      in \<lparr>clear_set = format_sources w k clear,
          unclear_set = format_sources w (k + length clear) unclear\<rparr>)"
  unfolding create_paired_sets_def Let_def
    clear_reliable_slice clear_unreliable_slice unclear_reliable_slice unclear_unreliable_slice
  by (rule refl)

text \<open>What the pairing lemmas need of the two shuffled pools.\<close>

lemma paired_sets_pools:
  obtains rs us where
    "mset rs = mset (filter (\<lambda>s. s_category s = ''reliable'') sources)"
    "mset us = mset (filter (\<lambda>s. s_category s = ''unreliable'') sources)"
    "clear_set (create_paired_sets w k sources) = format_sources w k (take 4 rs @ take 1 us)"
    "unclear_set (create_paired_sets w k sources)
       = format_sources w (k + length (take 4 rs @ take 1 us))
           (take 1 (drop 4 rs) @ take 3 (drop 1 us))"
proof -
  let ?rs = "shuffle (random_draws w) 0 (filter (\<lambda>s. s_category s = ''reliable'') sources)"
  let ?us = "shuffle (random_draws w) (length ?rs - 1)
               (filter (\<lambda>s. s_category s = ''unreliable'') sources)"
  show ?thesis
  proof (rule that [of ?rs ?us])
    show "mset ?rs = mset (filter (\<lambda>s. s_category s = ''reliable'') sources)"
      by (rule shuffle_mset)
    show "mset ?us = mset (filter (\<lambda>s. s_category s = ''unreliable'') sources)"
      by (rule shuffle_mset)
    show "clear_set (create_paired_sets w k sources) = format_sources w k (take 4 ?rs @ take 1 ?us)"
      by (simp add: create_paired_sets_slices Let_def)
    show "unclear_set (create_paired_sets w k sources)
       = format_sources w (k + length (take 4 ?rs @ take 1 ?us))
           (take 1 (drop 4 ?rs) @ take 3 (drop 1 ?us))"
      by (simp add: create_paired_sets_slices Let_def)
  qed
qed

lemma distinct_map_take_drop:
  assumes "distinct (map f xs)" and "n \<le> m"
  shows "set (map f (take n xs)) \<inter> set (map f (drop m xs)) = {}"
proof -
  have "distinct (map f (take m xs) @ map f (drop m xs))"
    using assms(1) by (simp flip: map_append)
  then have "set (map f (take m xs)) \<inter> set (map f (drop m xs)) = {}"
    by simp
  moreover have "set (take n xs) \<subseteq> set (take m xs)"
    using assms(2) by (rule set_take_subset_set_take)
  ultimately show ?thesis by auto
qed

lemma slices_disjoint:
  assumes "distinct (map f (rs @ us))"
  shows "set (map f (take 4 rs @ take 1 us))
           \<inter> set (map f (take 1 (drop 4 rs) @ take 3 (drop 1 us))) = {}"
proof -
  have d: "distinct (map f rs)" "distinct (map f us)" "set (map f rs) \<inter> set (map f us) = {}"
    using assms by simp_all
  have a: "set (map f (take 4 rs)) \<inter> set (map f (drop 4 rs)) = {}"
    using d(1) by (rule distinct_map_take_drop) simp
  have b: "set (map f (take 1 us)) \<inter> set (map f (drop 1 us)) = {}"
    using d(2) by (rule distinct_map_take_drop) simp
  have r1: "set (map f (take 4 rs)) \<subseteq> set (map f rs)"
    and r2: "set (map f (take 1 (drop 4 rs))) \<subseteq> set (map f (drop 4 rs))"
    and r3: "set (map f (drop 4 rs)) \<subseteq> set (map f rs)"
    and u1: "set (map f (take 1 us)) \<subseteq> set (map f us)"
    and u2: "set (map f (take 3 (drop 1 us))) \<subseteq> set (map f (drop 1 us))"
    and u3: "set (map f (drop 1 us)) \<subseteq> set (map f us)"
    by (auto dest: in_set_takeD in_set_dropD)
  show ?thesis
    unfolding map_append set_append using a b d(3) r1 r2 r3 u1 u2 u3 by blast
qed

lemma pools_distinct:
  assumes "mset rs = mset (filter (\<lambda>s. s_category s = ''reliable'') sources)"
    and "mset us = mset (filter (\<lambda>s. s_category s = ''unreliable'') sources)"
    and "distinct (map s_url (filter (\<lambda>s. s_category s = ''reliable'' \<or> s_category s = ''unreliable'') sources))"
  shows "distinct (map s_url (rs @ us))"
proof -
  have split: "mset (filter (\<lambda>s. s_category s = ''reliable'') sources)
          + mset (filter (\<lambda>s. s_category s = ''unreliable'') sources)
        = mset (filter (\<lambda>s. s_category s = ''reliable'' \<or> s_category s = ''unreliable'') sources)"
    by (induction sources) simp_all
  have "mset (rs @ us)
        = mset (filter (\<lambda>s. s_category s = ''reliable'' \<or> s_category s = ''unreliable'') sources)"
    unfolding mset_append assms(1,2) by (rule split)
  then have "mset (map s_url (rs @ us))
        = mset (map s_url (filter (\<lambda>s. s_category s = ''reliable'' \<or> s_category s = ''unreliable'') sources))"
    by (simp only: mset_map)
  then have "distinct (map s_url (rs @ us))
        = distinct (map s_url (filter (\<lambda>s. s_category s = ''reliable'' \<or> s_category s = ''unreliable'') sources))"
    by (rule mset_eq_imp_distinct_iff)
  then show ?thesis
    using assms(3) by (simp only:)
qed

text \<open>
  Claim C2, as amended. When the urls of the reliable and of the unreliable sources of
  the input are pairwise distinct, the clear set and the unclear set share no url,
  whatever the sizes of the pools, the random numbers and the clock.
\<close>

theorem paired_sets_disjoint:
  assumes "distinct (map s_url (filter (\<lambda>s. s_category s = ''reliable'' \<or> s_category s = ''unreliable'') sources))"
  shows "set (map f_url (clear_set (create_paired_sets w k sources)))
           \<inter> set (map f_url (unclear_set (create_paired_sets w k sources))) = {}"
proof -
  obtain rs us where p:
    "mset rs = mset (filter (\<lambda>s. s_category s = ''reliable'') sources)"
    "mset us = mset (filter (\<lambda>s. s_category s = ''unreliable'') sources)"
    "clear_set (create_paired_sets w k sources) = format_sources w k (take 4 rs @ take 1 us)"
    "unclear_set (create_paired_sets w k sources)
       = format_sources w (k + length (take 4 rs @ take 1 us))
           (take 1 (drop 4 rs) @ take 3 (drop 1 us))"
    by (rule paired_sets_pools)
  have "distinct (map s_url (rs @ us))"
    using p(1,2) assms by (rule pools_distinct)
  then have "set (map s_url (take 4 rs @ take 1 us))
           \<inter> set (map s_url (take 1 (drop 4 rs) @ take 3 (drop 1 us))) = {}"
    by (rule slices_disjoint)
  then show ?thesis
    unfolding p(3,4) format_sources_url .
qed

lemma map_const_replicate: "(\<forall>x \<in> set xs. f x = c) \<Longrightarrow> map f xs = replicate (length xs) c"
  by (induction xs) simp_all

lemma map_const_slice:
  assumes "\<forall>x \<in> set xs. f x = c"
  shows "map f (take n (drop m xs)) = replicate (min n (length xs - m)) c"
proof -
  have "map f (take n (drop m xs)) = take n (drop m (map f xs))"
    by (simp add: take_map drop_map)
  also have "\<dots> = take n (drop m (replicate (length xs) c))"
    using assms by (simp only: map_const_replicate)
  also have "\<dots> = replicate (min n (length xs - m)) c"
    by (simp add: min.commute)
  finally show ?thesis .
qed

lemma pool_categories:
  assumes "mset xs = mset (filter (\<lambda>s. s_category s = c) sources)"
  shows "\<forall>s \<in> set xs. s_category s = c"
    and "length xs = length (filter (\<lambda>s. s_category s = c) sources)"
proof -
  have "set xs = set (filter (\<lambda>s. s_category s = c) sources)"
    using assms by (rule mset_eq_setD)
  then show "\<forall>s \<in> set xs. s_category s = c" by simp
  show "length xs = length (filter (\<lambda>s. s_category s = c) sources)"
    using assms by (rule mset_eq_length)
qed

text \<open>
  Claim C1, as amended. With at least 6 reliable and at least 5 unreliable sources in the
  input, and any number of others, the clear set is 4 reliable sources followed by 1
  unreliable source and the unclear set is 1 reliable source followed by 3 unreliable
  sources; when the urls of the reliable and of the unreliable sources of the input are
  pairwise distinct, no url occurs in both sets.
\<close>

theorem paired_sets_full_pools:
  assumes "6 \<le> length (filter (\<lambda>s. s_category s = ''reliable'') sources)"
    and "5 \<le> length (filter (\<lambda>s. s_category s = ''unreliable'') sources)"
  shows "map f_category (clear_set (create_paired_sets w k sources))
           = [''reliable'', ''reliable'', ''reliable'', ''reliable'', ''unreliable''] \<and>
         map f_category (unclear_set (create_paired_sets w k sources))
           = [''reliable'', ''unreliable'', ''unreliable'', ''unreliable''] \<and>
         (distinct (map s_url (filter (\<lambda>s. s_category s = ''reliable''
                                          \<or> s_category s = ''unreliable'') sources)) \<longrightarrow>
          set (map f_url (clear_set (create_paired_sets w k sources)))
            \<inter> set (map f_url (unclear_set (create_paired_sets w k sources))) = {})"
proof -
  obtain rs us where p:
    "mset rs = mset (filter (\<lambda>s. s_category s = ''reliable'') sources)"
    "mset us = mset (filter (\<lambda>s. s_category s = ''unreliable'') sources)"
    "clear_set (create_paired_sets w k sources) = format_sources w k (take 4 rs @ take 1 us)"
    "unclear_set (create_paired_sets w k sources)
       = format_sources w (k + length (take 4 rs @ take 1 us))
           (take 1 (drop 4 rs) @ take 3 (drop 1 us))"
    by (rule paired_sets_pools)
  have rs: "\<forall>s \<in> set rs. s_category s = ''reliable''" "6 \<le> length rs"
    using pool_categories [OF p(1)] assms(1) by simp_all
  have us: "\<forall>s \<in> set us. s_category s = ''unreliable''" "5 \<le> length us"
    using pool_categories [OF p(2)] assms(2) by simp_all
  have c1: "map s_category (take 4 rs) = replicate 4 ''reliable''"
    using map_const_slice [OF rs(1), of 4 0] rs(2) by simp
  have c2: "map s_category (take 1 us) = replicate 1 ''unreliable''"
    using map_const_slice [OF us(1), of 1 0] us(2) by simp
  have u1: "map s_category (take 1 (drop 4 rs)) = replicate 1 ''reliable''"
    using map_const_slice [OF rs(1), of 1 4] rs(2) by simp
  have u2: "map s_category (take 3 (drop 1 us)) = replicate 3 ''unreliable''"
    using map_const_slice [OF us(1), of 3 1] us(2) by simp
  have clear: "map f_category (clear_set (create_paired_sets w k sources))
           = [''reliable'', ''reliable'', ''reliable'', ''reliable'', ''unreliable'']"
    unfolding p(3) format_sources_category map_append c1 c2
    by (simp add: numeral_eq_Suc)
  have unclear: "map f_category (unclear_set (create_paired_sets w k sources))
           = [''reliable'', ''unreliable'', ''unreliable'', ''unreliable'']"
    unfolding p(4) format_sources_category map_append u1 u2
    by (simp add: numeral_eq_Suc)
  have disjoint: "set (map f_url (clear_set (create_paired_sets w k sources)))
            \<inter> set (map f_url (unclear_set (create_paired_sets w k sources))) = {}"
    if d: "distinct (map s_url (filter (\<lambda>s. s_category s = ''reliable''
                                          \<or> s_category s = ''unreliable'') sources))"
  proof -
    have "distinct (map s_url (rs @ us))"
      using p(1,2) d by (rule pools_distinct)
    then have "set (map s_url (take 4 rs @ take 1 us))
           \<inter> set (map s_url (take 1 (drop 4 rs) @ take 3 (drop 1 us))) = {}"
      by (rule slices_disjoint)
    then show ?thesis
      unfolding p(3,4) format_sources_url .
  qed
  from clear unclear disjoint show ?thesis by blast
qed



subsection \<open>Collecting the sources\<close>

lemma extract_text_from_url_Some:
  "extract_text_from_url w u = Some t \<longleftrightarrow>
     \<not> extraction_timed_out w u \<and> do_extract w u = Some t \<and> 400 \<le> length t"
  by (auto simp: extract_text_from_url_def split: option.splits)

lemma extract_text_from_url_None:
  "extract_text_from_url w u = None \<longleftrightarrow>
     extraction_timed_out w u \<or> (\<forall>t. do_extract w u = Some t \<longrightarrow> length t < 400)"
  by (auto simp: extract_text_from_url_def split: option.splits)

text \<open>
  A result is appended exactly when its extraction does not time out and returns a text
  of at least 400 characters, its score is at least 0.35 and the second call of
  \<^verbatim>\<open>urlparse\<close> returns.
\<close>

lemma process_result_accepts:
  "process_result w sf result = Inr (Some source) \<longleftrightarrow>
     (\<exists>t sc netloc. \<not> extraction_timed_out w (r_url result) \<and>
        do_extract w (r_url result) = Some t \<and> 400 \<le> length t \<and>
        compute_relevance_score w sf (gold_query sf) t = Inr sc \<and> 35 / 100 \<le> sc \<and>
        urlparse_netloc w (r_url result) = Inr netloc \<and>
        source = \<lparr>s_url = r_url result,
                   s_domain = replace ''www.'' [] netloc,
                   s_category = classify_domain w sf (r_url result),
                   s_score = sc, s_text = take 1000 t,
                   s_title = r_title result, s_snippet = r_snippet result\<rparr>)"
proof (cases "extract_text_from_url w (r_url result)")
  case None
  then have "extraction_timed_out w (r_url result) \<or>
        (\<forall>t. do_extract w (r_url result) = Some t \<longrightarrow> length t < 400)"
    by (simp add: extract_text_from_url_None)
  with None show ?thesis
    by (auto simp: process_result_def Let_def)
next
  case (Some t)
  then have t: "\<not> extraction_timed_out w (r_url result)"
    "do_extract w (r_url result) = Some t" "400 \<le> length t"
    by (simp_all add: extract_text_from_url_Some)
  from Some t show ?thesis
    by (auto simp: process_result_def Let_def not_less split: sum.splits)
qed

lemma process_result_text:
  "process_result w sf result = Inr (Some source) \<Longrightarrow> length (s_text source) \<le> 1000"
  by (auto simp: process_result_accepts)

text \<open>
  An exception of the body is one of the fuzzy matcher, or the one of the second call of
  \<^verbatim>\<open>urlparse\<close>.
\<close>

lemma check_brackets_raises: "check_brackets w netloc = Inl e \<Longrightarrow> e = ValueError"
  by (simp add: check_brackets_def Let_def split: if_splits)

lemma urlparse_netloc_raises: "urlparse_netloc w u = Inl e \<Longrightarrow> e = ValueError"
  by (auto simp: urlparse_netloc_def Let_def split: if_splits dest: check_brackets_raises)

lemma process_result_raises:
  assumes "process_result w sf result = Inl e"
  shows "(\<exists>t. token_set_ratio w (gold_query sf) (take 5000 t) = Inl e) \<or>
         (urlparse_netloc w (r_url result) = Inl e \<and> e = ValueError)"
proof -
  from assms obtain t where
    "compute_relevance_score w sf (gold_query sf) t = Inl e \<or>
     urlparse_netloc w (r_url result) = Inl e"
    by (auto simp: process_result_def Let_def split: option.splits sum.splits if_splits)
  then show ?thesis
  proof
    assume c: "compute_relevance_score w sf (gold_query sf) t = Inl e"
    then have "extract_keywords sf (gold_query sf) \<noteq> []"
      by (auto simp: compute_relevance_score_empty)
    with c have "token_set_ratio w (gold_query sf) (take 5000 t) = Inl e"
      by (auto simp: compute_relevance_score_nonempty split: sum.splits)
    then show ?thesis by blast
  next
    assume "urlparse_netloc w (r_url result) = Inl e"
    then show ?thesis by (auto dest: urlparse_netloc_raises)
  qed
qed

subsection \<open>The run\<close>

text \<open>
  An invariant of the collected sources holds after each of the three iterations; an exception
  of an iteration is an exception of \<open>process_result\<close>.
\<close>

lemma process_results_invariant:
  assumes "process_results w sf results all_sources = Inr out"
    and "\<forall>s \<in> set all_sources. P s"
    and "\<And>r s. process_result w sf r = Inr (Some s) \<Longrightarrow> P s"
  shows "\<forall>s \<in> set out. P s"
  using assms(1,2)
proof (induction results arbitrary: all_sources)
  case Nil
  then show ?case by simp
next
  case (Cons r rest)
  show ?case
  proof (cases "process_result w sf r")
    case (Inl e)
    with Cons.prems(1) show ?thesis by simp
  next
    case (Inr accepted)
    show ?thesis
    proof (cases accepted)
      case None
      with Inr Cons.prems(1) have "process_results w sf rest all_sources = Inr out"
        by simp
      then show ?thesis using Cons.prems(2) by (rule Cons.IH)
    next
      case (Some s)
      with Inr have "P s" by (auto intro: assms(3))
      with Cons.prems(2) have "\<forall>a \<in> set (all_sources @ [s]). P a" by simp
      moreover from Some Inr Cons.prems(1)
      have "process_results w sf rest (all_sources @ [s]) = Inr out" by simp
      ultimately show ?thesis by (rule Cons.IH [rotated])
    qed
  qed
qed

lemma process_results_raises:
  "process_results w sf results all_sources = Inl e \<Longrightarrow>
   \<exists>r \<in> set results. process_result w sf r = Inl e"
proof (induction results arbitrary: all_sources)
  case Nil
  then show ?case by simp
next
  case (Cons r rest)
  then show ?case
    by (cases "process_result w sf r") (auto split: option.splits)
qed

lemma run_queries_invariant:
  assumes "run_queries w sf queries all_sources = Inr out"
    and "\<forall>s \<in> set all_sources. P s"
    and "\<And>r s. process_result w sf r = Inr (Some s) \<Longrightarrow> P s"
  shows "\<forall>s \<in> set out. P s"
  using assms(1,2)
proof (induction queries arbitrary: all_sources)
  case Nil
  then show ?case by simp
next
  case (Cons q rest)
  from Cons.prems(1) obtain mid where
    mid: "process_results w sf (search_duckduckgo w q 15) all_sources = Inr mid"
    and rest: "run_queries w sf rest mid = Inr out"
    by (auto split: sum.splits)
  have "\<forall>s \<in> set mid. P s"
    using mid Cons.prems(2) assms(3) by (rule process_results_invariant)
  with rest show ?case by (rule Cons.IH)
qed

lemma run_queries_raises:
  "run_queries w sf queries all_sources = Inl e \<Longrightarrow> \<exists>r. process_result w sf r = Inl e"
proof (induction queries arbitrary: all_sources)
  case Nil
  then show ?case by simp
next
  case (Cons q rest)
  then show ?case
    by (cases "process_results w sf (search_duckduckgo w q 15) all_sources")
       (auto dest: process_results_raises)
qed

lemma run_plan_invariant:
  assumes "run_plan w sf plan all_sources = Inr out"
    and "\<forall>s \<in> set all_sources. P s"
    and "\<And>r s. process_result w sf r = Inr (Some s) \<Longrightarrow> P s"
  shows "\<forall>s \<in> set out. P s"
  using assms(1,2)
proof (induction plan arbitrary: all_sources)
  case Nil
  then show ?case by simp
next
  case (Cons entry rest)
  obtain source_type queries where entry: "entry = (source_type, queries)"
    by (cases entry)
  from Cons.prems(1) obtain mid where
    mid: "run_queries w sf queries all_sources = Inr mid"
    and rest: "run_plan w sf rest mid = Inr out"
    by (auto simp: entry split: sum.splits)
  have "\<forall>s \<in> set mid. P s"
    using mid Cons.prems(2) assms(3) by (rule run_queries_invariant)
  with rest show ?case by (rule Cons.IH)
qed

lemma run_plan_raises:
  "run_plan w sf plan all_sources = Inl e \<Longrightarrow> \<exists>r. process_result w sf r = Inl e"
proof (induction plan arbitrary: all_sources)
  case Nil
  then show ?case by simp
next
  case (Cons entry rest)
  obtain source_type queries where entry: "entry = (source_type, queries)"
    by (cases entry)
  from Cons show ?case
    by (cases "run_queries w sf queries all_sources") (auto simp: entry dest: run_queries_raises)
qed

lemma find_sources_raises:
  "find_sources w sf = Inl e \<longleftrightarrow> run_plan w sf (search_queries sf) [] = Inl e"
  by (auto simp: find_sources_def Let_def split: sum.splits)

lemma find_sources_returns:
  "find_sources w sf = Inr (paired, written) \<Longrightarrow>
   \<exists>all_sources. run_plan w sf (search_queries sf) [] = Inr all_sources \<and>
     paired = create_paired_sets w 1 all_sources"
  by (auto simp: find_sources_def Let_def split: sum.splits)

lemma build_after_run:
  "run_plan w sf (search_queries sf) [] = Inr all_sources \<Longrightarrow>
   build w sf = Inr (create_paired_sets w 1 all_sources)"
  by (simp add: build_def find_sources_def Let_def)

lemma build_after_raise:
  "run_plan w sf (search_queries sf) [] = Inl e \<Longrightarrow>
   build w sf = Inr \<lparr>clear_set = [], unclear_set = []\<rparr>"
  by (simp add: build_def find_sources_def)

lemma format_sources_member:
  "f \<in> set (format_sources w k xs) \<Longrightarrow> \<exists>s \<in> set xs. \<exists>j. f = format_source w j s"
  by (induction xs arbitrary: k) auto

lemma paired_sets_members:
  assumes "f \<in> set (clear_set (create_paired_sets w k sources))
             \<union> set (unclear_set (create_paired_sets w k sources))"
  shows "\<exists>s \<in> set sources. \<exists>j. f = format_source w j s"
proof -
  obtain rs us where p:
    "mset rs = mset (filter (\<lambda>s. s_category s = ''reliable'') sources)"
    "mset us = mset (filter (\<lambda>s. s_category s = ''unreliable'') sources)"
    "clear_set (create_paired_sets w k sources) = format_sources w k (take 4 rs @ take 1 us)"
    "unclear_set (create_paired_sets w k sources)
       = format_sources w (k + length (take 4 rs @ take 1 us))
           (take 1 (drop 4 rs) @ take 3 (drop 1 us))"
    by (rule paired_sets_pools)
  have rs: "set rs \<subseteq> set sources"
    using mset_eq_setD [OF p(1)] by auto
  have us: "set us \<subseteq> set sources"
    using mset_eq_setD [OF p(2)] by auto
  from assms have "\<exists>k xs. f \<in> set (format_sources w k xs) \<and> set xs \<subseteq> set rs \<union> set us"
  proof
    assume "f \<in> set (clear_set (create_paired_sets w k sources))"
    then have "f \<in> set (format_sources w k (take 4 rs @ take 1 us))"
      by (simp only: p(3))
    moreover have "set (take 4 rs @ take 1 us) \<subseteq> set rs \<union> set us"
      by (auto dest: in_set_takeD)
    ultimately show ?thesis by blast
  next
    assume "f \<in> set (unclear_set (create_paired_sets w k sources))"
    then have "f \<in> set (format_sources w (k + length (take 4 rs @ take 1 us))
                          (take 1 (drop 4 rs) @ take 3 (drop 1 us)))"
      by (simp only: p(4))
    moreover have "set (take 1 (drop 4 rs) @ take 3 (drop 1 us)) \<subseteq> set rs \<union> set us"
      by (auto dest: in_set_takeD in_set_dropD)
    ultimately show ?thesis by blast
  qed
  then obtain k' xs where "f \<in> set (format_sources w k' xs)" "set xs \<subseteq> set rs \<union> set us"
    by blast
  then obtain s j where "s \<in> set rs \<union> set us" "f = format_source w j s"
    by (blast dest: format_sources_member)
  with rs us show ?thesis by blast
qed

text \<open>
  Claim C10. In every world and for every finder \<open>build\<close> returns, and in its result the
  text of every source of the clear set and of the unclear set has at most 1000
  characters.
\<close>

theorem build_text_bounded:
  "\<exists>p. build w sf = Inr p \<and>
       (\<forall>f \<in> set (clear_set p) \<union> set (unclear_set p). length (f_text f) \<le> 1000)"
proof (cases "run_plan w sf (search_queries sf) []")
  case (Inl e)
  then have "build w sf = Inr \<lparr>clear_set = [], unclear_set = []\<rparr>"
    by (rule build_after_raise)
  then show ?thesis by simp
next
  case (Inr all_sources)
  then have b: "build w sf = Inr (create_paired_sets w 1 all_sources)"
    by (rule build_after_run)
  have bounded: "\<forall>s \<in> set all_sources. length (s_text s) \<le> 1000"
    using Inr by (rule run_plan_invariant) (simp_all add: process_result_text)
  have "\<forall>f \<in> set (clear_set (create_paired_sets w 1 all_sources))
                 \<union> set (unclear_set (create_paired_sets w 1 all_sources)).
          length (f_text f) \<le> 1000"
  proof
    fix f assume "f \<in> set (clear_set (create_paired_sets w 1 all_sources))
                 \<union> set (unclear_set (create_paired_sets w 1 all_sources))"
    then have "\<exists>s \<in> set all_sources. \<exists>j. f = format_source w j s"
      by (rule paired_sets_members)
    then obtain s j where "s \<in> set all_sources" "f = format_source w j s"
      by blast
    with bounded show "length (f_text f) \<le> 1000"
      by (simp add: format_source_def)
  qed
  with b show ?thesis by blast
qed

text \<open>Nothing but the snapshot depends on what the write of the snapshot does.\<close>

lemma check_brackets_write_json:
  "check_brackets (w\<lparr>write_json := wj\<rparr>) netloc = check_brackets w netloc"
  by (simp add: check_brackets_def Let_def cong: if_cong)

lemma urlparse_netloc_write_json:
  "urlparse_netloc (w\<lparr>write_json := wj\<rparr>) u = urlparse_netloc w u"
  unfolding urlparse_netloc_def check_brackets_write_json by (rule refl)

lemma classify_domain_write_json:
  "classify_domain (w\<lparr>write_json := wj\<rparr>) sf u = classify_domain w sf u"
  by (simp add: classify_domain_def urlparse_netloc_write_json)

lemma extract_text_from_url_write_json:
  "extract_text_from_url (w\<lparr>write_json := wj\<rparr>) u = extract_text_from_url w u"
  by (simp add: extract_text_from_url_def do_extract_def
        cong: if_cong option.case_cong sum.case_cong)

lemma compute_relevance_score_write_json:
  "compute_relevance_score (w\<lparr>write_json := wj\<rparr>) sf query body
     = compute_relevance_score w sf query body"
  by (simp add: compute_relevance_score_def Let_def cong: if_cong option.case_cong sum.case_cong)

lemma process_result_write_json:
  "process_result (w\<lparr>write_json := wj\<rparr>) sf result = process_result w sf result"
  unfolding process_result_def urlparse_netloc_write_json classify_domain_write_json
    extract_text_from_url_write_json compute_relevance_score_write_json
  by (rule refl)

lemma process_results_write_json:
  "process_results (w\<lparr>write_json := wj\<rparr>) sf results all_sources
     = process_results w sf results all_sources"
  by (induction results arbitrary: all_sources)
     (simp_all add: process_result_write_json split: sum.splits option.splits)

lemma run_queries_write_json:
  "run_queries (w\<lparr>write_json := wj\<rparr>) sf queries all_sources
     = run_queries w sf queries all_sources"
  by (induction queries arbitrary: all_sources)
     (simp_all add: process_results_write_json search_duckduckgo_def split: sum.splits)

lemma run_plan_write_json:
  "run_plan (w\<lparr>write_json := wj\<rparr>) sf plan all_sources = run_plan w sf plan all_sources"
  by (induction plan arbitrary: all_sources)
     (auto simp: run_queries_write_json split: sum.splits)

lemma format_sources_write_json:
  "format_sources (w\<lparr>write_json := wj\<rparr>) k xs = format_sources w k xs"
  by (induction xs arbitrary: k) (simp_all add: format_source_def)

lemma create_paired_sets_write_json:
  "create_paired_sets (w\<lparr>write_json := wj\<rparr>) k sources = create_paired_sets w k sources"
  by (simp add: create_paired_sets_slices format_sources_write_json)

lemma build_write_json: "build (w\<lparr>write_json := wj\<rparr>) sf = build w sf"
proof (cases "run_plan w sf (search_queries sf) []")
  case (Inl e)
  then have "run_plan (w\<lparr>write_json := wj\<rparr>) sf (search_queries sf) [] = Inl e"
    by (simp add: run_plan_write_json)
  with Inl show ?thesis by (simp add: build_after_raise)
next
  case (Inr all_sources)
  then have "run_plan (w\<lparr>write_json := wj\<rparr>) sf (search_queries sf) [] = Inr all_sources"
    by (simp add: run_plan_write_json)
  with Inr show ?thesis by (simp add: build_after_run create_paired_sets_write_json)
qed

text \<open>
  Claim C3, as amended. An exception that leaves \<open>find_sources\<close> is caught by \<open>build\<close>,
  which returns the empty sets; such an exception is one the fuzzy matcher raised or the
  \<^verbatim>\<open>ValueError\<close> of \<^verbatim>\<open>urlparse\<close>. When \<open>find_sources\<close> returns, \<open>build\<close> returns its paired
  sets; \<open>build\<close> raises nothing. The exceptions of the search provider, of the extractor
  and of the write of the snapshot are caught where they occur and do not reach
  \<open>build\<close>: the query has no results, the url has no text, and the result of \<open>build\<close> is
  the same whatever the write of the snapshot does.
\<close>

theorem build_fail_soft:
  "(\<forall>e. find_sources w sf = Inl e \<longrightarrow>
      build w sf = Inr \<lparr>clear_set = [], unclear_set = []\<rparr> \<and>
      ((\<exists>t. token_set_ratio w (gold_query sf) (take 5000 t) = Inl e) \<or>
       (\<exists>a. urlparse_netloc w a = Inl e \<and> e = ValueError))) \<and>
   (\<forall>paired written. find_sources w sf = Inr (paired, written) \<longrightarrow> build w sf = Inr paired) \<and>
   (\<exists>p. build w sf = Inr p) \<and>
   build (w\<lparr>write_json := wj\<rparr>) sf = build w sf \<and>
   (\<forall>e. ddgs_text w q n = Inl e \<longrightarrow> search_duckduckgo w q n = []) \<and>
   (\<forall>e. fetch_url w u = Inl e \<longrightarrow> extract_text_from_url w u = None) \<and>
   (\<forall>e page. fetch_url w u = Inr (Some page) \<and> trafilatura_extract w page = Inl e \<longrightarrow>
      extract_text_from_url w u = None) \<and>
   (extraction_timed_out w u \<longrightarrow> extract_text_from_url w u = None)"
proof (intro conjI allI impI)
  fix e assume e: "find_sources w sf = Inl e"
  then show "build w sf = Inr \<lparr>clear_set = [], unclear_set = []\<rparr>"
    by (simp add: build_def)
  from e have "run_plan w sf (search_queries sf) [] = Inl e"
    by (simp add: find_sources_raises)
  then obtain r where "process_result w sf r = Inl e"
    by (blast dest: run_plan_raises)
  then have "(\<exists>t. token_set_ratio w (gold_query sf) (take 5000 t) = Inl e) \<or>
         (urlparse_netloc w (r_url r) = Inl e \<and> e = ValueError)"
    by (rule process_result_raises)
  then show "(\<exists>t. token_set_ratio w (gold_query sf) (take 5000 t) = Inl e) \<or>
       (\<exists>a. urlparse_netloc w a = Inl e \<and> e = ValueError)"
    by blast
next
  fix paired written assume "find_sources w sf = Inr (paired, written)"
  then show "build w sf = Inr paired"
    by (simp add: build_def)
next
  show "\<exists>p. build w sf = Inr p"
    by (cases "find_sources w sf") (auto simp: build_def)
next
  show "build (w\<lparr>write_json := wj\<rparr>) sf = build w sf"
    by (rule build_write_json)
next
  fix e assume "ddgs_text w q n = Inl e"
  then show "search_duckduckgo w q n = []"
    by (simp add: search_duckduckgo_def)
next
  fix e assume "fetch_url w u = Inl e"
  then show "extract_text_from_url w u = None"
    by (simp add: extract_text_from_url_def do_extract_def)
next
  fix e page assume "fetch_url w u = Inr (Some page) \<and> trafilatura_extract w page = Inl e"
  then show "extract_text_from_url w u = None"
    by (simp add: extract_text_from_url_def do_extract_def)
next
  assume "extraction_timed_out w u"
  then show "extract_text_from_url w u = None"
    by (simp add: extract_text_from_url_def)
qed

subsection \<open>Domain classification\<close>

lemma endswith_suffix: "endswith s t = suffix t s"
proof
  assume "endswith s t"
  then have "s = take (length s - length t) s @ t"
    by (metis append_take_drop_id endswith_def)
  then show "suffix t s" by (rule suffixI)
next
  assume "suffix t s"
  then obtain zs where "s = zs @ t" by (rule suffixE)
  then show "endswith s t" by (simp add: endswith_def)
qed

lemma domain_matches_anchored:
  "domain_matches d e \<longleftrightarrow> d = e \<or> (\<exists>p. d = p @ ''.'' @ e)"
  by (auto simp: domain_matches_def endswith_suffix suffix_def)

lemma netloc_sub: "urlparse_netloc w ''http://sub.example.org/a'' = Inr ''sub.example.org''"
  by (simp add: urlparse_defs char_class_defs)

lemma netloc_evil:
  "urlparse_netloc w ''http://example.org.evil.com'' = Inr ''example.org.evil.com''"
  by (simp add: urlparse_defs char_class_defs)

lemma netloc_dev: "urlparse_netloc w ''http://dev-www.example.org/a'' = Inr ''dev-www.example.org''"
  by (simp add: urlparse_defs char_class_defs)

lemma netloc_inner: "urlparse_netloc w ''http://sub.exawww.mple.org/'' = Inr ''sub.exawww.mple.org''"
  by (simp add: urlparse_defs char_class_defs)

lemma netloc_bracket: "urlparse_netloc w ''http://[sub.example.org/a'' = Inl ValueError"
  by (simp add: urlparse_defs char_class_defs)

lemma netloc_stripped: "urlparse_netloc w (CHR '' '' # ''ht'' @ CHR 0x09 # ''tp://a.b/c'') = Inr ''a.b''"
  by (simp add: urlparse_defs char_class_defs)

subsection \<open>Loading the trust configuration\<close>

lemma load_failed_raises:
  "e \<noteq> FileNotFoundError \<Longrightarrow> e \<noteq> JSONDecodeError \<Longrightarrow> load_failed sf e = Inl e"
  by (simp add: load_failed_def)

text \<open>
  Claim C9, as amended. When the configuration file is missing
  (\<^verbatim>\<open>FileNotFoundError\<close>) or holds invalid JSON (\<^verbatim>\<open>JSONDecodeError\<close>), the loader
  returns with both trust sets empty and one line printed, and raises nothing. Any other
  exception of opening or parsing the file leaves the loader, as does the
  \<^verbatim>\<open>AttributeError\<close> of a configuration that is no JSON object.
\<close>

theorem load_domain_config_recovers:
  "(open_read w (domain_trust_config_path sf) = Inl FileNotFoundError \<longrightarrow>
      load_domain_config w sf
        = Inr (sf\<lparr>reliable_domains := {}, unreliable_domains := {}\<rparr>,
               [''Warning: '' @ domain_trust_config_path sf
                  @ '' not found, using empty domain lists''])) \<and>
   (open_read w (domain_trust_config_path sf) = Inr content \<and>
    json_load w content = Inl JSONDecodeError \<longrightarrow>
      load_domain_config w sf
        = Inr (sf\<lparr>reliable_domains := {}, unreliable_domains := {}\<rparr>,
               [''Error: Invalid JSON in '' @ domain_trust_config_path sf])) \<and>
   (e \<noteq> FileNotFoundError \<and> e \<noteq> JSONDecodeError \<and>
    (open_read w (domain_trust_config_path sf) = Inl e \<or>
     open_read w (domain_trust_config_path sf) = Inr content \<and> json_load w content = Inl e) \<longrightarrow>
      load_domain_config w sf = Inl e) \<and>
   (open_read w (domain_trust_config_path sf) = Inr content \<and>
    json_load w content = Inr ConfigOther \<longrightarrow>
      load_domain_config w sf = Inl AttributeError)"
proof (intro conjI impI)
  assume "open_read w (domain_trust_config_path sf) = Inl FileNotFoundError"
  then show "load_domain_config w sf
        = Inr (sf\<lparr>reliable_domains := {}, unreliable_domains := {}\<rparr>,
               [''Warning: '' @ domain_trust_config_path sf
                  @ '' not found, using empty domain lists''])"
    by (simp add: load_domain_config_def load_failed_def)
next
  assume "open_read w (domain_trust_config_path sf) = Inr content \<and>
    json_load w content = Inl JSONDecodeError"
  then show "load_domain_config w sf
        = Inr (sf\<lparr>reliable_domains := {}, unreliable_domains := {}\<rparr>,
               [''Error: Invalid JSON in '' @ domain_trust_config_path sf])"
    by (simp add: load_domain_config_def load_failed_def)
next
  assume a: "e \<noteq> FileNotFoundError \<and> e \<noteq> JSONDecodeError \<and>
    (open_read w (domain_trust_config_path sf) = Inl e \<or>
     open_read w (domain_trust_config_path sf) = Inr content \<and> json_load w content = Inl e)"
  then have "load_failed sf e = Inl e"
    by (simp add: load_failed_raises)
  with a show "load_domain_config w sf = Inl e"
    by (auto simp: load_domain_config_def)
next
  assume "open_read w (domain_trust_config_path sf) = Inr content \<and>
    json_load w content = Inr ConfigOther"
  then show "load_domain_config w sf = Inl AttributeError"
    by (simp add: load_domain_config_def load_failed_def)
qed


section \<open>The properties on the example inputs\<close>

lemma example_keywords: "extract_keywords example_finder ''flu vaccine'' = [''flu'', ''vaccine'']"
  by (simp add: extract_keywords_def example_finder_def findall_alpha_words_def char_class_defs)

lemma example_hits: "keyword_hits [''flu'', ''vaccine''] ''Flu shot'' = 1"
  by (simp add: keyword_hits_def char_class_defs)

theorem relevance_score_in_unit_interval_witness:
  "token_set_ratio example_world ''flu vaccine'' (take 5000 ''Flu shot'') = Inr 50 \<and>
   compute_relevance_score example_world example_finder ''flu vaccine'' ''Flu shot'' = Inr (1 / 2)"
proof -
  have r: "token_set_ratio example_world ''flu vaccine'' (take 5000 ''Flu shot'') = Inr 50"
    by (simp add: example_world_def)
  from relevance_score_in_unit_interval [OF r, of example_finder]
  obtain sc where
    "compute_relevance_score example_world example_finder ''flu vaccine'' ''Flu shot'' = Inr sc"
    "sc = (if extract_keywords example_finder ''flu vaccine'' = [] then 0
           else 6 / 10 * (of_nat (keyword_hits (extract_keywords example_finder ''flu vaccine'') ''Flu shot'')
                           / of_nat (length (extract_keywords example_finder ''flu vaccine'')))
                + 4 / 10 * (50 / 100))"
    by auto
  then show ?thesis
    using r by (simp add: example_keywords example_hits)
qed

theorem empty_keywords_score_zero_witness:
  "extract_keywords example_finder ''the 42 of'' = [] \<and>
   compute_relevance_score example_world example_finder ''the 42 of'' ''Flu shot'' = Inr 0 \<and>
   extract_keywords example_finder ''flu vaccine'' \<noteq> [] \<and>
   keyword_hit_rate (extract_keywords example_finder ''flu vaccine'') ''Flu shot'' = Inr (1 / 2)"
proof -
  have k: "extract_keywords example_finder ''the 42 of'' = []"
    by (simp add: extract_keywords_def example_finder_def findall_alpha_words_def char_class_defs)
  have n: "extract_keywords example_finder ''flu vaccine'' \<noteq> []"
    by (simp add: example_keywords)
  have a: "compute_relevance_score example_world example_finder ''the 42 of'' ''Flu shot'' = Inr 0"
    using empty_keywords_score_zero
            [of example_finder "''the 42 of''" example_world "''Flu shot''", THEN conjunct1] k
    by (rule mp)
  have "keyword_hit_rate (extract_keywords example_finder ''flu vaccine'') ''Flu shot''
          = Inr (of_nat (keyword_hits (extract_keywords example_finder ''flu vaccine'') ''Flu shot'')
                  / of_nat (length (extract_keywords example_finder ''flu vaccine'')))"
    using empty_keywords_score_zero
            [of example_finder "''flu vaccine''" example_world "''Flu shot''",
             THEN conjunct2, THEN conjunct1] n
    by (rule mp)
  then have b: "keyword_hit_rate (extract_keywords example_finder ''flu vaccine'') ''Flu shot''
          = Inr (1 / 2)"
    by (simp add: example_keywords example_hits)
  from k a n b show ?thesis by (intro conjI)
qed





lemma mset_replicate_eq:
  assumes "mset xs = mset (replicate n x)"
  shows "xs = replicate n x"
proof (rule replicate_eqI)
  show "length xs = n" using mset_eq_length [OF assms] by simp
  fix y assume "y \<in> set xs"
  then show "y = x" using mset_eq_setD [OF assms] by (auto split: if_splits)
qed

text \<open>
  A page that five queries found is collected five times. Whatever the shuffle, its url
  is in the clear set and in the unclear set.
\<close>

theorem paired_sets_disjoint_counterexample:
  "set (map f_url (clear_set (create_paired_sets example_world 0 found_five_times)))
     \<inter> set (map f_url (unclear_set (create_paired_sets example_world 0 found_five_times)))
   = {''http://example.org/a''}"
proof -
  obtain rs us where p:
    "mset rs = mset (filter (\<lambda>s. s_category s = ''reliable'') found_five_times)"
    "mset us = mset (filter (\<lambda>s. s_category s = ''unreliable'') found_five_times)"
    "clear_set (create_paired_sets example_world 0 found_five_times)
       = format_sources example_world 0 (take 4 rs @ take 1 us)"
    "unclear_set (create_paired_sets example_world 0 found_five_times)
       = format_sources example_world (0 + length (take 4 rs @ take 1 us))
           (take 1 (drop 4 rs) @ take 3 (drop 1 us))"
    by (rule paired_sets_pools)
  have "mset rs = mset (replicate 5 (mk_source ''reliable'' ''http://example.org/a''))"
    using p(1) by (simp add: found_five_times_def mk_source_def)
  then have rs: "rs = replicate 5 (mk_source ''reliable'' ''http://example.org/a'')"
    by (rule mset_replicate_eq)
  have us: "us = []"
    using p(2) by (simp add: found_five_times_def mk_source_def)
  show ?thesis
    unfolding p(3,4) format_sources_url rs us
    by (simp add: mk_source_def)
qed

text \<open>
  With six copies of a reliable and five copies of an unreliable source the pools are
  full, and both urls occur in both sets.
\<close>

theorem paired_sets_full_pools_counterexample:
  "6 \<le> length (filter (\<lambda>s. s_category s = ''reliable'') repeated_pools) \<and>
   5 \<le> length (filter (\<lambda>s. s_category s = ''unreliable'') repeated_pools) \<and>
   set (map f_url (clear_set (create_paired_sets example_world 0 repeated_pools)))
     \<inter> set (map f_url (unclear_set (create_paired_sets example_world 0 repeated_pools)))
   = {''http://example.org/a'', ''http://rumour.net/b''}"
proof -
  obtain rs us where p:
    "mset rs = mset (filter (\<lambda>s. s_category s = ''reliable'') repeated_pools)"
    "mset us = mset (filter (\<lambda>s. s_category s = ''unreliable'') repeated_pools)"
    "clear_set (create_paired_sets example_world 0 repeated_pools)
       = format_sources example_world 0 (take 4 rs @ take 1 us)"
    "unclear_set (create_paired_sets example_world 0 repeated_pools)
       = format_sources example_world (0 + length (take 4 rs @ take 1 us))
           (take 1 (drop 4 rs) @ take 3 (drop 1 us))"
    by (rule paired_sets_pools)
  have "mset rs = mset (replicate 6 (mk_source ''reliable'' ''http://example.org/a''))"
    using p(1) by (simp add: repeated_pools_def mk_source_def)
  then have rs: "rs = replicate 6 (mk_source ''reliable'' ''http://example.org/a'')"
    by (rule mset_replicate_eq)
  have "mset us = mset (replicate 5 (mk_source ''unreliable'' ''http://rumour.net/b''))"
    using p(2) by (simp add: repeated_pools_def mk_source_def)
  then have us: "us = replicate 5 (mk_source ''unreliable'' ''http://rumour.net/b'')"
    by (rule mset_replicate_eq)
  have "set (map f_url (clear_set (create_paired_sets example_world 0 repeated_pools)))
     \<inter> set (map f_url (unclear_set (create_paired_sets example_world 0 repeated_pools)))
   = {''http://example.org/a'', ''http://rumour.net/b''}"
    unfolding p(3,4) format_sources_url rs us
    by (simp add: mk_source_def)
  then show ?thesis
    by (simp add: repeated_pools_def mk_source_def)
qed

theorem paired_sets_full_pools_witness:
  "6 \<le> length (filter (\<lambda>s. s_category s = ''reliable'') full_pools) \<and>
   5 \<le> length (filter (\<lambda>s. s_category s = ''unreliable'') full_pools) \<and>
   distinct (map s_url (filter (\<lambda>s. s_category s = ''reliable''
                                   \<or> s_category s = ''unreliable'') full_pools)) \<and>
   map f_category (clear_set (create_paired_sets example_world 0 full_pools))
     = [''reliable'', ''reliable'', ''reliable'', ''reliable'', ''unreliable''] \<and>
   map f_category (unclear_set (create_paired_sets example_world 0 full_pools))
     = [''reliable'', ''unreliable'', ''unreliable'', ''unreliable''] \<and>
   set (map f_url (clear_set (create_paired_sets example_world 0 full_pools)))
     \<inter> set (map f_url (unclear_set (create_paired_sets example_world 0 full_pools))) = {}"
proof -
  have a: "6 \<le> length (filter (\<lambda>s. s_category s = ''reliable'') full_pools)"
    and b: "5 \<le> length (filter (\<lambda>s. s_category s = ''unreliable'') full_pools)"
    and c: "distinct (map s_url (filter (\<lambda>s. s_category s = ''reliable''
                                   \<or> s_category s = ''unreliable'') full_pools))"
    by (simp_all add: full_pools_def mk_source_def)
  show ?thesis
    using a b c paired_sets_full_pools [OF a b, of example_world 0] by simp
qed

theorem paired_sets_disjoint_witness:
  "distinct (map s_url (filter (\<lambda>s. s_category s = ''reliable''
                                   \<or> s_category s = ''unreliable'') mixed_pools)) \<and>
   set (map f_url (clear_set (create_paired_sets example_world 0 mixed_pools)))
     \<inter> set (map f_url (unclear_set (create_paired_sets example_world 0 mixed_pools))) = {}"
proof -
  have d: "distinct (map s_url (filter (\<lambda>s. s_category s = ''reliable''
                                   \<or> s_category s = ''unreliable'') mixed_pools))"
    by (simp add: mixed_pools_def mk_source_def)
  show ?thesis
    using d paired_sets_disjoint [OF d, of example_world 0] by simp
qed



lemma strip_unchanged:
  assumes "s \<noteq> []" and "\<not> is_space (hd s)" and "\<not> is_space (last s)"
  shows "strip s = s"
proof -
  have a: "dropWhile is_space s = s"
    using assms(1,2) by (cases s) simp_all
  have "rev s \<noteq> []" and "\<not> is_space (hd (rev s))"
    using assms(1,3) by (simp_all add: hd_rev)
  then have "dropWhile is_space (rev s) = rev s"
    by (cases "rev s") simp_all
  with a show ?thesis by (simp add: strip_def)
qed

lemma not_contains: "\<not> set k \<subseteq> set s \<Longrightarrow> \<not> contains k s"
  unfolding contains_sublist by (auto dest: set_mono_sublist)

lemma example_page_strip: "strip example_page = example_page"
  by (rule strip_unchanged) (simp_all add: example_page_def is_space_def)

lemma example_page_length: "length example_page = 1204"
  by (simp add: example_page_def)

lemma example_do_extract:
  "fetch_url w = (\<lambda>u. Inr (Some ''<html>'')) \<Longrightarrow>
   trafilatura_extract w = (\<lambda>page. Inr (Some example_page)) \<Longrightarrow>
   do_extract w u = Some example_page"
  by (simp add: do_extract_def example_page_strip) (simp add: example_page_def)

lemma example_page_hits: "keyword_hits [''flu'', ''vaccine''] example_page = 1"
proof -
  have "\<not> contains ''vaccine'' (lower example_page)"
    by (rule not_contains) (simp add: example_page_def char_class_defs)
  moreover have "contains ''flu'' (lower example_page)"
    by (simp add: example_page_def char_class_defs)
  ultimately show ?thesis by (simp add: keyword_hits_def)
qed

lemma example_page_score:
  "token_set_ratio w = (\<lambda>a b. Inr 50) \<Longrightarrow>
   compute_relevance_score w example_finder ''flu vaccine'' example_page = Inr (1 / 2)"
  using example_keywords
  by (simp add: compute_relevance_score_nonempty example_page_hits)

lemma example_classify:
  "classify_domain w example_finder ''http://sub.example.org/a'' = ''reliable''"
  by (simp add: classify_domain_def netloc_sub example_finder_def domain_matches_def
        endswith_def char_class_defs)

lemma example_process_result:
  assumes "fetch_url w = (\<lambda>u. Inr (Some ''<html>''))"
    and "trafilatura_extract w = (\<lambda>page. Inr (Some example_page))"
    and "extraction_timed_out w = (\<lambda>u. False)"
    and "token_set_ratio w = (\<lambda>a b. Inr 50)"
  shows "process_result w example_finder example_result = Inr (Some example_source)"
proof -
  have "extract_text_from_url w ''http://sub.example.org/a'' = Some example_page"
    using example_do_extract [OF assms(1,2)] assms(3)
    by (simp add: extract_text_from_url_Some example_page_length)
  moreover have "gold_query example_finder = ''flu vaccine''"
    by (simp add: example_finder_def)
  moreover have "take 1000 example_page = ''flu '' @ replicate 996 (CHR ''x'')"
    by (simp add: example_page_def)
  ultimately show ?thesis
    using example_page_score [OF assms(4)]
    by (simp add: process_result_def example_result_def example_classify netloc_sub
          example_source_def del: append.simps)
qed

lemma example_search:
  assumes "ddgs_text w = (\<lambda>q n. if q = ''flu vaccine guidelines'' then Inr [example_hit] else Inr [])"
  shows "search_duckduckgo w q 15 = (if q = ''flu vaccine guidelines'' then [example_result] else [])"
  using assms
  by (simp add: search_duckduckgo_def List.map_filter_simps hit_to_result_def example_hit_def
        truthy_def example_result_def)

lemma example_run_plan:
  assumes "ddgs_text w = (\<lambda>q n. if q = ''flu vaccine guidelines'' then Inr [example_hit] else Inr [])"
    and "fetch_url w = (\<lambda>u. Inr (Some ''<html>''))"
    and "trafilatura_extract w = (\<lambda>page. Inr (Some example_page))"
    and "extraction_timed_out w = (\<lambda>u. False)"
    and "token_set_ratio w = (\<lambda>a b. Inr 50)"
  shows "run_plan w example_finder (search_queries example_finder) [] = Inr [example_source]"
proof -
  have plan: "search_queries example_finder = query_plan ''flu vaccine''"
    by (simp add: example_finder_def)
  show ?thesis
    unfolding plan query_plan_def
    by (simp add: example_search [OF assms(1)] example_process_result [OF assms(2-5)])
qed

lemma find_sources_dump_fails:
  "run_plan w sf (search_queries sf) [] = Inr all_sources \<Longrightarrow>
   write_json w = (\<lambda>name d. Some e) \<Longrightarrow>
   find_sources w sf = Inr (create_paired_sets w 1 all_sources, None)"
  by (simp add: find_sources_def Let_def)

lemma example_pairing:
  "create_paired_sets w k [example_source]
     = \<lparr>clear_set = [format_source w k example_source], unclear_set = []\<rparr>"
  by (simp add: create_paired_sets_slices shuffle_def example_source_def)

lemma example_world_run:
  "run_plan example_world example_finder (search_queries example_finder) [] = Inr [example_source]"
  by (rule example_run_plan) (simp_all add: example_world_def)

lemma failing_dump_world_run:
  "run_plan failing_dump_world example_finder (search_queries example_finder) []
     = Inr [example_source]"
  by (rule example_run_plan) (simp_all add: failing_dump_world_def example_world_def)

text \<open>
  The write of the snapshot raises \<^verbatim>\<open>PermissionError\<close> inside \<open>find_sources\<close>. The
  exception is recovered there, nothing is written, and \<open>build\<close> returns a clear set
  with one source.
\<close>

theorem build_fail_soft_counterexample:
  "write_json failing_dump_world = (\<lambda>name d. Some PermissionError) \<and>
   find_sources failing_dump_world example_finder
     = Inr (\<lparr>clear_set = [format_source failing_dump_world 1 example_source],
              unclear_set = []\<rparr>, None) \<and>
   build failing_dump_world example_finder
     = Inr \<lparr>clear_set = [format_source failing_dump_world 1 example_source],
            unclear_set = []\<rparr>"
proof -
  have w: "write_json failing_dump_world = (\<lambda>name d. Some PermissionError)"
    by (simp add: failing_dump_world_def)
  have "find_sources failing_dump_world example_finder
          = Inr (create_paired_sets failing_dump_world 1 [example_source], None)"
    using failing_dump_world_run w by (rule find_sources_dump_fails)
  moreover have "build failing_dump_world example_finder
          = Inr (create_paired_sets failing_dump_world 1 [example_source])"
    using failing_dump_world_run by (rule build_after_run)
  ultimately show ?thesis
    using w by (simp add: example_pairing)
qed

lemma raising_world_process_result:
  "process_result raising_world example_finder example_result = Inl (OtherError ''injected'')"
proof -
  have "do_extract raising_world ''http://sub.example.org/a'' = Some example_page"
    by (rule example_do_extract) (simp_all add: raising_world_def example_world_def)
  then have "extract_text_from_url raising_world ''http://sub.example.org/a'' = Some example_page"
    by (simp add: extract_text_from_url_Some example_page_length raising_world_def
          example_world_def)
  moreover have "compute_relevance_score raising_world example_finder ''flu vaccine'' example_page
          = Inl (OtherError ''injected'')"
    using example_keywords
    by (simp add: compute_relevance_score_nonempty raising_world_def)
  moreover have "gold_query example_finder = ''flu vaccine''"
    by (simp add: example_finder_def)
  ultimately show ?thesis
    by (simp add: process_result_def example_result_def)
qed

lemma raising_world_run:
  "run_plan raising_world example_finder (search_queries example_finder) []
     = Inl (OtherError ''injected'')"
proof -
  have plan: "search_queries example_finder = query_plan ''flu vaccine''"
    by (simp add: example_finder_def)
  have search: "search_duckduckgo raising_world q 15
          = (if q = ''flu vaccine guidelines'' then [example_result] else [])" for q
    by (rule example_search) (simp add: raising_world_def example_world_def)
  show ?thesis
    unfolding plan query_plan_def
    by (simp add: search raising_world_process_result)
qed

lemma bracket_world_extract:
  "extract_text_from_url bracket_world ''http://[sub.example.org/a'' = Some example_page"
proof -
  have "do_extract bracket_world ''http://[sub.example.org/a'' = Some example_page"
    by (rule example_do_extract) (simp_all add: bracket_world_def example_world_def)
  then show ?thesis
    by (simp add: extract_text_from_url_Some example_page_length bracket_world_def
          example_world_def)
qed

lemma bracket_world_score:
  "compute_relevance_score bracket_world example_finder ''flu vaccine'' example_page = Inr (1 / 2)"
  by (rule example_page_score) (simp add: bracket_world_def example_world_def)

lemma bracket_world_classify:
  "classify_domain bracket_world example_finder ''http://[sub.example.org/a'' = ''unknown''"
  by (simp add: classify_domain_def netloc_bracket)

lemma bracket_world_process_result:
  "process_result bracket_world example_finder bracket_result = Inl ValueError"
proof -
  have "gold_query example_finder = ''flu vaccine''"
    by (simp add: example_finder_def)
  then show ?thesis
    by (simp add: process_result_def bracket_result_def bracket_world_extract
          bracket_world_score netloc_bracket)
qed

lemma bracket_world_search:
  "search_duckduckgo bracket_world q 15
     = (if q = ''flu vaccine guidelines'' then [bracket_result] else [])"
  by (simp add: search_duckduckgo_def List.map_filter_simps hit_to_result_def example_hit_def
        truthy_def bracket_result_def bracket_world_def example_world_def)

lemma bracket_world_run:
  "run_plan bracket_world example_finder (search_queries example_finder) [] = Inl ValueError"
proof -
  have plan: "search_queries example_finder = query_plan ''flu vaccine''"
    by (simp add: example_finder_def)
  show ?thesis
    unfolding plan query_plan_def
    by (simp add: bracket_world_search bracket_world_process_result)
qed

text \<open>
  The fuzzy matcher raises on the first page that is scored, and in another world
  \<^verbatim>\<open>urlparse\<close> raises on the url of an accepted page: the exception leaves
  \<open>find_sources\<close> and \<open>build\<close> returns the empty sets. In the example world
  \<open>find_sources\<close> returns and \<open>build\<close> returns its sets, also when the write of the
  snapshot raises.
\<close>

theorem build_fail_soft_witness:
  "find_sources raising_world example_finder = Inl (OtherError ''injected'') \<and>
   build raising_world example_finder = Inr \<lparr>clear_set = [], unclear_set = []\<rparr> \<and>
   find_sources bracket_world example_finder = Inl ValueError \<and>
   build bracket_world example_finder = Inr \<lparr>clear_set = [], unclear_set = []\<rparr> \<and>
   find_sources example_world example_finder
     = Inr (create_paired_sets example_world 1 [example_source],
            snd (projr (find_sources example_world example_finder))) \<and>
   build example_world example_finder
     = Inr \<lparr>clear_set = [format_source example_world 1 example_source], unclear_set = []\<rparr> \<and>
   build (example_world\<lparr>write_json := (\<lambda>name d. Some PermissionError)\<rparr>) example_finder
     = Inr \<lparr>clear_set = [format_source example_world 1 example_source], unclear_set = []\<rparr>"
proof -
  have a: "find_sources raising_world example_finder = Inl (OtherError ''injected'')"
    using raising_world_run by (simp add: find_sources_raises)
  have a': "find_sources bracket_world example_finder = Inl ValueError"
    using bracket_world_run by (simp add: find_sources_raises)
  have b: "find_sources example_world example_finder
     = Inr (create_paired_sets example_world 1 [example_source],
            snd (projr (find_sources example_world example_finder)))"
    using example_world_run by (simp add: find_sources_def Let_def)
  from a build_fail_soft [of raising_world example_finder]
  have c: "build raising_world example_finder = Inr \<lparr>clear_set = [], unclear_set = []\<rparr>"
    by blast
  from a' build_fail_soft [of bracket_world example_finder]
  have c': "build bracket_world example_finder = Inr \<lparr>clear_set = [], unclear_set = []\<rparr>"
    by blast
  from b build_fail_soft [of example_world example_finder]
  have "build example_world example_finder
          = Inr (create_paired_sets example_world 1 [example_source])"
    by blast
  then have d: "build example_world example_finder
     = Inr \<lparr>clear_set = [format_source example_world 1 example_source], unclear_set = []\<rparr>"
    by (simp only: example_pairing)
  from build_fail_soft [of example_world example_finder "\<lambda>name d. Some PermissionError"]
  have "build (example_world\<lparr>write_json := (\<lambda>name d. Some PermissionError)\<rparr>) example_finder
          = build example_world example_finder"
    by blast
  with d have e: "build (example_world\<lparr>write_json := (\<lambda>name d. Some PermissionError)\<rparr>)
            example_finder
     = Inr \<lparr>clear_set = [format_source example_world 1 example_source], unclear_set = []\<rparr>"
    by simp
  from a c a' c' b d e show ?thesis by (intro conjI)
qed

text \<open>
  Claim C4, at a url that \<^verbatim>\<open>urlparse\<close> rejects. The search finds the url
  \<^verbatim>\<open>http://[sub.example.org/a\<close>; its extraction returns 1204 characters and the score
  is 0.5, so the three conditions of the claim hold. The classification catches the
  \<^verbatim>\<open>ValueError\<close> and answers \<^verbatim>\<open>unknown\<close>; the call of \<^verbatim>\<open>urlparse\<close> for the key
  \<^verbatim>\<open>'domain'\<close> raises it again. The result is not appended, \<open>find_sources\<close> raises and
  \<open>build\<close> returns the empty sets. The same page under the url
  \<^verbatim>\<open>http://sub.example.org/a\<close> is appended to the collected sources.
\<close>

theorem malformed_url_aborts_run:
  "search_duckduckgo bracket_world ''flu vaccine guidelines'' 15 = [bracket_result] \<and>
   extract_text_from_url bracket_world (r_url bracket_result) = Some example_page \<and>
   length example_page = 1204 \<and>
   compute_relevance_score bracket_world example_finder (gold_query example_finder) example_page
     = Inr (1 / 2) \<and>
   classify_domain bracket_world example_finder (r_url bracket_result) = ''unknown'' \<and>
   urlparse_netloc bracket_world (r_url bracket_result) = Inl ValueError \<and>
   process_result bracket_world example_finder bracket_result = Inl ValueError \<and>
   run_plan bracket_world example_finder (search_queries example_finder) [] = Inl ValueError \<and>
   find_sources bracket_world example_finder = Inl ValueError \<and>
   build bracket_world example_finder = Inr \<lparr>clear_set = [], unclear_set = []\<rparr> \<and>
   process_result example_world example_finder example_result = Inr (Some example_source) \<and>
   run_plan example_world example_finder (search_queries example_finder) []
     = Inr [example_source]"
proof -
  have q: "gold_query example_finder = ''flu vaccine''"
    by (simp add: example_finder_def)
  have u: "r_url bracket_result = ''http://[sub.example.org/a''"
    by (simp add: bracket_result_def)
  have 1: "search_duckduckgo bracket_world ''flu vaccine guidelines'' 15 = [bracket_result]"
    by (simp add: bracket_world_search)
  have 2: "find_sources bracket_world example_finder = Inl ValueError"
    using bracket_world_run by (simp add: find_sources_raises)
  have 3: "build bracket_world example_finder = Inr \<lparr>clear_set = [], unclear_set = []\<rparr>"
    using bracket_world_run by (rule build_after_raise)
  have 4: "process_result example_world example_finder example_result = Inr (Some example_source)"
    by (rule example_process_result) (simp_all add: example_world_def)
  from 1 2 3 4 show ?thesis
    unfolding q u
    by (simp add: bracket_world_extract example_page_length bracket_world_score
          bracket_world_classify netloc_bracket bracket_world_run example_world_run
          bracket_world_process_result)
qed

theorem build_text_bounded_witness:
  "build example_world example_finder
     = Inr \<lparr>clear_set = [format_source example_world 1 example_source], unclear_set = []\<rparr> \<and>
   length (f_text (format_source example_world 1 example_source)) = 1000 \<and>
   list_all (\<lambda>f. length (f_text f) \<le> 1000) [format_source example_world 1 example_source]"
proof -
  have b: "build example_world example_finder
     = Inr \<lparr>clear_set = [format_source example_world 1 example_source], unclear_set = []\<rparr>"
    using build_after_run [OF example_world_run] by (simp only: example_pairing)
  from build_text_bounded [of example_world example_finder] b
  have "\<forall>f \<in> set [format_source example_world 1 example_source] \<union> set [].
          length (f_text f) \<le> 1000"
    by auto
  then have "list_all (\<lambda>f. length (f_text f) \<le> 1000) [format_source example_world 1 example_source]"
    by simp
  moreover have "length (f_text (format_source example_world 1 example_source)) = 1000"
    by (simp add: format_source_def example_source_def)
  ultimately show ?thesis using b by simp
qed



lemma spec_matches_endswith: "spec_matches d e \<longleftrightarrow> d = e \<or> endswith d (''.'' @ e)"
  by (simp add: spec_matches_def endswith_suffix)

text \<open>
  Claim C5, at hosts that hold \<^verbatim>\<open>www.\<close> inside. With \<^verbatim>\<open>example.org\<close> the only reliable
  entry: the host \<^verbatim>\<open>dev-www.example.org\<close> is a subdomain of it and has no leading \<^verbatim>\<open>www.\<close>,
  so the rule of the claim classifies it reliable, while the code removes the inner
  \<^verbatim>\<open>www.\<close>, compares \<^verbatim>\<open>dev-example.org\<close> and answers unknown; the host
  \<^verbatim>\<open>sub.exawww.mple.org\<close> is no subdomain of it, so the rule of the claim answers unknown,
  while the code compares \<^verbatim>\<open>sub.example.org\<close> and answers reliable. On the two urls of
  the claim the code answers as the claim says, and a url that \<^verbatim>\<open>urlparse\<close> rejects is
  unknown.
\<close>

theorem www_removed_everywhere:
  "classify_domain example_world example_finder ''http://dev-www.example.org/a'' = ''unknown'' \<and>
   spec_classify example_world (reliable_domains example_finder)
     (unreliable_domains example_finder) ''http://dev-www.example.org/a'' = ''reliable'' \<and>
   classify_domain example_world example_finder ''http://sub.exawww.mple.org/'' = ''reliable'' \<and>
   spec_classify example_world (reliable_domains example_finder)
     (unreliable_domains example_finder) ''http://sub.exawww.mple.org/'' = ''unknown'' \<and>
   classify_domain example_world example_finder ''http://sub.example.org/a'' = ''reliable'' \<and>
   classify_domain example_world example_finder ''http://example.org.evil.com'' = ''unknown'' \<and>
   classify_domain example_world example_finder ''http://[sub.example.org/a'' = ''unknown''"
proof -
  have r: "reliable_domains example_finder = {''example.org''}"
    and n: "unreliable_domains example_finder = {''rumour.net''}"
    by (simp_all add: example_finder_def)
  have 1: "classify_domain example_world example_finder ''http://dev-www.example.org/a''
             = ''unknown''"
    by (simp add: classify_domain_def netloc_dev r n domain_matches_def endswith_def
          char_class_defs)
  have 2: "spec_classify example_world (reliable_domains example_finder)
     (unreliable_domains example_finder) ''http://dev-www.example.org/a'' = ''reliable''"
    by (simp add: spec_classify_def netloc_dev r n spec_matches_endswith host_of_netloc_def
          strip_leading_www_def endswith_def char_class_defs)
  have 3: "classify_domain example_world example_finder ''http://sub.exawww.mple.org/''
             = ''reliable''"
    by (simp add: classify_domain_def netloc_inner r n domain_matches_def endswith_def
          char_class_defs)
  have 4: "spec_classify example_world (reliable_domains example_finder)
     (unreliable_domains example_finder) ''http://sub.exawww.mple.org/'' = ''unknown''"
    by (simp add: spec_classify_def netloc_inner r n spec_matches_endswith host_of_netloc_def
          strip_leading_www_def endswith_def char_class_defs)
  have 5: "classify_domain example_world example_finder ''http://sub.example.org/a'' = ''reliable''"
    by (rule example_classify)
  have 6: "classify_domain example_world example_finder ''http://example.org.evil.com''
             = ''unknown''"
    by (simp add: classify_domain_def netloc_evil r n domain_matches_def endswith_def
          char_class_defs)
  have 7: "classify_domain example_world example_finder ''http://[sub.example.org/a''
             = ''unknown''"
    by (simp add: classify_domain_def netloc_bracket)
  from 1 2 3 4 5 6 7 show ?thesis by (intro conjI)
qed

text \<open>
  A configuration file that cannot be read for lack of permission, and one that holds a
  JSON array: the exception leaves the loader, and with it the constructor.
\<close>

theorem load_domain_config_recovers_counterexample:
  "load_domain_config denied_world example_finder = Inl PermissionError \<and>
   init denied_world ''flu vaccine'' ''domain_trust_config.json'' = Inl PermissionError \<and>
   load_domain_config array_config_world example_finder = Inl AttributeError"
  by (simp add: load_domain_config_def load_failed_def init_def denied_world_def
        array_config_world_def example_world_def)

theorem load_domain_config_recovers_witness:
  "load_domain_config example_world example_finder
     = Inr (example_finder\<lparr>reliable_domains := {}, unreliable_domains := {}\<rparr>,
            [''Warning: domain_trust_config.json not found, using empty domain lists'']) \<and>
   load_domain_config broken_json_world example_finder
     = Inr (example_finder\<lparr>reliable_domains := {}, unreliable_domains := {}\<rparr>,
            [''Error: Invalid JSON in domain_trust_config.json'']) \<and>
   load_domain_config denied_world example_finder = Inl PermissionError \<and>
   load_domain_config array_config_world example_finder = Inl AttributeError"
proof -
  have p: "domain_trust_config_path example_finder = ''domain_trust_config.json''"
    by (simp add: example_finder_def)
  have a: "open_read example_world (domain_trust_config_path example_finder) = Inl FileNotFoundError"
    by (simp add: example_world_def)
  have b: "open_read broken_json_world (domain_trust_config_path example_finder)
             = Inr ''{public_health: '' \<and>
           json_load broken_json_world ''{public_health: '' = Inl JSONDecodeError"
    by (simp add: broken_json_world_def example_world_def)
  have c: "PermissionError \<noteq> FileNotFoundError \<and> PermissionError \<noteq> JSONDecodeError \<and>
           (open_read denied_world (domain_trust_config_path example_finder) = Inl PermissionError \<or>
            open_read denied_world (domain_trust_config_path example_finder) = Inr []
              \<and> json_load denied_world [] = Inl PermissionError)"
    by (simp add: denied_world_def)
  have d: "open_read array_config_world (domain_trust_config_path example_finder) = Inr ''[]'' \<and>
           json_load array_config_world ''[]'' = Inr ConfigOther"
    by (simp add: array_config_world_def)
  have 1: "load_domain_config example_world example_finder
     = Inr (example_finder\<lparr>reliable_domains := {}, unreliable_domains := {}\<rparr>,
            [''Warning: domain_trust_config.json not found, using empty domain lists''])"
    using load_domain_config_recovers [of example_world example_finder, THEN conjunct1] a p
    by simp
  have 2: "load_domain_config broken_json_world example_finder
     = Inr (example_finder\<lparr>reliable_domains := {}, unreliable_domains := {}\<rparr>,
            [''Error: Invalid JSON in domain_trust_config.json''])"
    using load_domain_config_recovers
            [of broken_json_world example_finder "''{public_health: ''",
             THEN conjunct2, THEN conjunct1] b p
    by simp
  have 3: "load_domain_config denied_world example_finder = Inl PermissionError"
    using load_domain_config_recovers
            [of denied_world example_finder "[]" PermissionError,
             THEN conjunct2, THEN conjunct2, THEN conjunct1] c
    by (rule mp)
  have 4: "load_domain_config array_config_world example_finder = Inl AttributeError"
    using load_domain_config_recovers
            [of array_config_world example_finder "''[]''",
             THEN conjunct2, THEN conjunct2, THEN conjunct2] d
    by (rule mp)
  from 1 2 3 4 show ?thesis by (intro conjI)
qed

end
